theory Spec2Isabelle
  imports Complex_Main "HOL-Library.Multiset"
begin

section \<open>JavaScript values used by the fee and balance code\<close>

text \<open>
  A JavaScript number is an IEEE 754 double. The numbers of this code come from
  \<^verbatim>\<open>parseInt\<close>, from adding two of them and from \<^verbatim>\<open>Math.ceil\<close>: each is \<^verbatim>\<open>NaN\<close>, an infinity
  or an integer that a double represents, \<open>Num i\<close>. Every operation below rounds its exact
  result to the nearest double, as the code's arithmetic does. \<^verbatim>\<open>undefined\<close> (an array read
  out of range) is \<open>None\<close> of an option type.
\<close>

datatype jsnumber = NaN | Num int | Infinity | NegInfinity

datatype error = TransportError string | TypeError | InvalidInteger

definition oneGwei :: int where
  "oneGwei = 1000000000"

definition MAX_SAFE_INTEGER :: int where
  "MAX_SAFE_INTEGER = 2 ^ 53 - 1"

text \<open>\<^verbatim>\<open>xs[i]\<close>: \<^verbatim>\<open>undefined\<close> out of range.\<close>

definition elemAt :: "'a list \<Rightarrow> nat \<Rightarrow> 'a option" where
  "elemAt xs i = (if i < length xs then Some (xs ! i) else None)"

text \<open>\<^verbatim>\<open>xs.map((x, i) => f(x, i))\<close>, the index starting from the third argument.\<close>

fun mapIndexed :: "('a \<Rightarrow> nat \<Rightarrow> 'b) \<Rightarrow> 'a list \<Rightarrow> nat \<Rightarrow> 'b list" where
  "mapIndexed f [] i = []"
| "mapIndexed f (x # xs) i = f x i # mapIndexed f xs (Suc i)"

text \<open>Truthiness of a possibly undefined number: \<^verbatim>\<open>undefined\<close>, \<^verbatim>\<open>NaN\<close> and \<open>0\<close> are falsy.\<close>

fun truthy :: "jsnumber option \<Rightarrow> bool" where
  "truthy None = False"
| "truthy (Some NaN) = False"
| "truthy (Some (Num i)) = (i \<noteq> 0)"
| "truthy (Some Infinity) = True"
| "truthy (Some NegInfinity) = True"

subsection \<open>Rounding to a double\<close>

text \<open>
  A double has 53 significant bits. \<open>shiftFor n\<close> is the number of low bits of \<open>n\<close> that do
  not fit, and \<open>roundSignificand n\<close> is \<open>n\<close> rounded to 53 significant bits, to the nearest
  and to the even one of two nearest. The nearest double of an integer is that rounding,
  or an infinity from \<open>2 ^ 1024\<close> on.
\<close>

function shiftFor :: "nat \<Rightarrow> nat" where
  "shiftFor n = (if n < 2 ^ 53 then 0 else Suc (shiftFor (n div 2)))"
  by pat_completeness auto
termination
  by (relation "measure (\<lambda>n. n)") auto

declare shiftFor.simps [simp del]

definition roundSignificand :: "nat \<Rightarrow> nat" where
  "roundSignificand n =
     (let s = shiftFor n;
          q = n div 2 ^ s;
          r = n mod 2 ^ s
      in (if 2 ^ s < 2 * r \<or> (2 * r = 2 ^ s \<and> odd q) then q + 1 else q) * 2 ^ s)"

definition roundInt :: "int \<Rightarrow> jsnumber" where
  "roundInt i =
     (let m = roundSignificand (nat \<bar>i\<bar>)
      in if 2 ^ 1024 \<le> m then (if i < 0 then NegInfinity else Infinity)
         else Num (if i < 0 then - int m else int m))"

text \<open>The natural numbers that are JavaScript numbers: those that rounding leaves alone.\<close>

definition representable :: "nat \<Rightarrow> bool" where
  "representable n = (roundInt (int n) = Num (int n))"

text \<open>\<^verbatim>\<open>a + b\<close>: the exact sum, rounded.\<close>

fun plus_js :: "jsnumber \<Rightarrow> jsnumber \<Rightarrow> jsnumber" where
  "plus_js (Num a) (Num b) = roundInt (a + b)"
| "plus_js NaN _ = NaN"
| "plus_js _ NaN = NaN"
| "plus_js Infinity NegInfinity = NaN"
| "plus_js NegInfinity Infinity = NaN"
| "plus_js Infinity _ = Infinity"
| "plus_js _ Infinity = Infinity"
| "plus_js NegInfinity _ = NegInfinity"
| "plus_js _ NegInfinity = NegInfinity"

subsection \<open>Digits: \<^verbatim>\<open>Number.prototype.toString(radix)\<close> and \<^verbatim>\<open>parseInt\<close>\<close>

definition digits :: string where
  "digits = ''0123456789abcdefghijklmnopqrstuvwxyz''"

definition upperLetters :: string where
  "upperLetters = ''ABCDEFGHIJKLMNOPQRSTUVWXYZ''"

definition digitChar :: "nat \<Rightarrow> char" where
  "digitChar d = digits ! d"

function natToString :: "nat \<Rightarrow> nat \<Rightarrow> string" where
  "natToString radix n =
     (if n < radix \<or> radix < 2 then [digitChar n]
      else natToString radix (n div radix) @ [digitChar (n mod radix)])"
  by pat_completeness auto
termination
  by (relation "measure (\<lambda>(radix, n). n)") auto

declare natToString.simps [simp del]

text \<open>
  The decimal form of an integer double \<open>x\<close> above \<open>2 ^ 53\<close>. JavaScript prints the fewest
  digits \<open>s\<close> such that \<open>s\<close> followed by zeros is read back as \<open>x\<close> (of two such, the closer
  to \<open>x\<close>), then zeros up to 21 digits in all, and the exponent form \<^verbatim>\<open>d.ddde+n\<close> beyond.
  \<open>shortestDigits x D k\<close> looks for \<open>s\<close> among the numbers of \<open>k\<close> digits and more, \<open>D\<close> being
  the number of digits of \<open>x\<close>.
\<close>

function shortestDigits :: "nat \<Rightarrow> nat \<Rightarrow> nat \<Rightarrow> nat" where
  "shortestDigits x D k =
     (if D \<le> k then x
      else
        let j = D - k;
            s0 = x div 10 ^ j;
            ok0 = (roundInt (int (s0 * 10 ^ j)) = Num (int x));
            ok1 = (s0 + 1 < 10 ^ k \<and> roundInt (int ((s0 + 1) * 10 ^ j)) = Num (int x))
        in if ok0 \<and> ok1
           then (if x - s0 * 10 ^ j < (s0 + 1) * 10 ^ j - x \<or>
                    (x - s0 * 10 ^ j = (s0 + 1) * 10 ^ j - x \<and> even s0)
                 then s0 else s0 + 1)
           else if ok0 then s0
           else if ok1 then s0 + 1
           else shortestDigits x D (Suc k))"
  by pat_completeness auto
termination
  by (relation "measure (\<lambda>(x, D, k). D - k)") auto

declare shortestDigits.simps [simp del]

definition decimalForm :: "nat \<Rightarrow> string" where
  "decimalForm x =
     (let D = length (natToString 10 x);
          up = (roundInt (10 ^ D) = Num (int x));
          s = (if up then 1 else shortestDigits x D 1);
          n = (if up then D + 1 else D);
          ds = natToString 10 s;
          k = length ds
      in if n \<le> 21 then ds @ replicate (n - k) (CHR ''0'')
         else (if k = 1 then ds else take 1 ds @ ''.'' @ drop 1 ds) @
              ''e+'' @ natToString 10 (n - 1))"

text \<open>
  The digits of a natural number in a radix, as \<^verbatim>\<open>toString(radix)\<close> prints them: up to
  \<open>2 ^ 53\<close> every digit of the number, and in radix 10 above that the decimal form. (In
  radix 16 an integer double is printed digit by digit whatever its size.)
\<close>

definition digitsOf :: "nat \<Rightarrow> nat \<Rightarrow> string" where
  "digitsOf radix n = (if radix = 10 \<and> 2 ^ 53 < n then decimalForm n else natToString radix n)"

definition toString :: "nat \<Rightarrow> jsnumber \<Rightarrow> string" where
  "toString radix x =
     (case x of
        NaN \<Rightarrow> ''NaN''
      | Num i \<Rightarrow> if i < 0 then CHR ''-'' # digitsOf radix (nat (- i))
                 else digitsOf radix (nat i)
      | Infinity \<Rightarrow> ''Infinity''
      | NegInfinity \<Rightarrow> ''-Infinity'')"

fun indexOf :: "char \<Rightarrow> string \<Rightarrow> nat \<Rightarrow> nat option" where
  "indexOf c [] i = None"
| "indexOf c (d # ds) i = (if c = d then Some i else indexOf c ds (Suc i))"

definition digitValue :: "char \<Rightarrow> nat option" where
  "digitValue c =
     (case indexOf c digits 0 of
        Some v \<Rightarrow> Some v
      | None \<Rightarrow> indexOf c upperLetters 10)"

definition isDigit :: "nat \<Rightarrow> char \<Rightarrow> bool" where
  "isDigit radix c = (case digitValue c of Some v \<Rightarrow> v < radix | None \<Rightarrow> False)"

definition digitsValue :: "nat \<Rightarrow> string \<Rightarrow> nat" where
  "digitsValue radix Z = foldl (\<lambda>acc c. acc * radix + the (digitValue c)) 0 Z"

definition isWhiteSpace :: "char \<Rightarrow> bool" where
  "isWhiteSpace c =
     (c = CHR 0x09 \<or> c = CHR 0x0A \<or> c = CHR 0x0B \<or> c = CHR 0x0C \<or> c = CHR 0x0D \<or> c = CHR 0x20)"

text \<open>
  \<^verbatim>\<open>parseInt(string, radix)\<close> as ECMAScript defines it, on ASCII strings: leading white
  space is skipped, a sign is read, a \<^verbatim>\<open>0x\<close> prefix is stripped when the radix is 16 or
  absent, and the longest run of digits of the radix is the value, rounded to the nearest
  double; no digit gives \<^verbatim>\<open>NaN\<close>. The radix is \<open>None\<close> when the call passes none. (Beyond
  20 decimal digits ECMAScript lets an implementation round differently; V8 rounds to the
  nearest.)
\<close>

definition parseInt :: "string \<Rightarrow> nat option \<Rightarrow> jsnumber" where
  "parseInt string radix =
     (let S = dropWhile isWhiteSpace string;
          sign = (if take 1 S = ''-'' then - 1 else 1 :: int);
          S1 = (if take 1 S = ''+'' \<or> take 1 S = ''-'' then drop 1 S else S);
          R0 = (case radix of None \<Rightarrow> 0 | Some r \<Rightarrow> r);
          stripPrefix = (R0 = 0 \<or> R0 = 16);
          R1 = (if R0 = 0 then 10 else R0);
          hasPrefix = (stripPrefix \<and> (take 2 S1 = ''0x'' \<or> take 2 S1 = ''0X''));
          S2 = (if hasPrefix then drop 2 S1 else S1);
          R = (if hasPrefix then 16 else R1);
          Z = takeWhile (isDigit R) S2
      in if R < 2 \<or> 36 < R then NaN
         else if Z = [] then NaN
         else roundInt (sign * int (digitsValue R Z)))"

text \<open>
  \<^verbatim>\<open>intToHex\<close> of ethereumjs-util: it throws unless its argument is a safe integer that is
  not negative, and prints \<^verbatim>\<open>0x\<close> followed by the hexadecimal digits otherwise.
\<close>

definition intToHex :: "jsnumber \<Rightarrow> error + string" where
  "intToHex i =
     (case i of
        NaN \<Rightarrow> Inl InvalidInteger
      | Num n \<Rightarrow> if n < 0 \<or> MAX_SAFE_INTEGER < n then Inl InvalidInteger
                 else Inr (''0x'' @ toString 16 (Num n))
      | Infinity \<Rightarrow> Inl InvalidInteger
      | NegInfinity \<Rightarrow> Inl InvalidInteger)"

subsection \<open>\<^verbatim>\<open>Array.prototype.sort()\<close> without a comparison function\<close>

text \<open>
  The default comparison orders \<^verbatim>\<open>undefined\<close> last and every other element by its
  string form, code unit by code unit. The sort is stable.
\<close>

fun stringLess :: "string \<Rightarrow> string \<Rightarrow> bool" where
  "stringLess [] [] = False"
| "stringLess [] (y # ys) = True"
| "stringLess (x # xs) [] = False"
| "stringLess (x # xs) (y # ys) =
     (if x = y then stringLess xs ys else (of_char x :: nat) < of_char y)"

fun sortCompare :: "jsnumber option \<Rightarrow> jsnumber option \<Rightarrow> int" where
  "sortCompare None None = 0"
| "sortCompare None (Some y) = 1"
| "sortCompare (Some x) None = - 1"
| "sortCompare (Some x) (Some y) =
     (if stringLess (toString 10 x) (toString 10 y) then - 1
      else if stringLess (toString 10 y) (toString 10 x) then 1
      else 0)"

fun sortInsert :: "jsnumber option \<Rightarrow> jsnumber option list \<Rightarrow> jsnumber option list" where
  "sortInsert x [] = [x]"
| "sortInsert x (y # ys) = (if sortCompare x y \<le> 0 then x # y # ys else y # sortInsert x ys)"

fun sort_js :: "jsnumber option list \<Rightarrow> jsnumber option list" where
  "sort_js [] = []"
| "sort_js (x # xs) = sortInsert x (sort_js xs)"

section \<open>The gas calculator (src/main/transaction/gasCalculator.ts)\<close>

record RawTransaction =
  chainId :: string
  txFields :: "(string \<times> string) list"

record GasEstimateResponse =
  error :: "string option"
  result :: string

text \<open>
  The fee history as the node returns it. A gas-used ratio is a finite decimal, kept as
  a rational; the comparisons with \<^verbatim>\<open>0.1\<close> and \<^verbatim>\<open>0.9\<close> are then comparisons of rationals.
\<close>

record FeeHistoryResponse =
  baseFeePerGas :: "string list"
  gasUsedRatio :: "rat list"
  reward :: "string list list"

datatype RpcParam = PNum int | PStr string | PNums "int list" | PTx RawTransaction

record ProviderRequest =
  rpc_method :: string
  params :: "RpcParam list"
  rpc_id :: nat
  jsonrpc :: string

record TargetChain =
  chain_type :: string
  chain_id :: jsnumber

record Block =
  baseFee :: jsnumber
  rewards :: "jsnumber list"
  gasUsedRatio :: "rat option"

record Eip1559GasFees =
  maxBaseFeePerGas :: string
  maxPriorityFeePerGas :: string
  maxFeePerGas :: string

text \<open>
  The connection is outside the repository. Its \<^verbatim>\<open>send\<close> is used in two ways: with a
  callback and a target chain, where it hands the callback one response, and as a promise
  that resolves with the fee history or rejects.
\<close>

record Connection =
  send_callback :: "ProviderRequest \<Rightarrow> TargetChain \<Rightarrow> GasEstimateResponse"
  send :: "ProviderRequest \<Rightarrow> error + FeeHistoryResponse"

record GasCalculator =
  connection :: Connection
  defaultGasLevel :: string

definition rpcPayload :: "string \<Rightarrow> RpcParam list \<Rightarrow> nat \<Rightarrow> ProviderRequest" where
  "rpcPayload m ps i = \<lparr>rpc_method = m, params = ps, rpc_id = i, jsonrpc = ''2.0''\<rparr>"

definition getGasPrice :: "GasCalculator \<Rightarrow> RawTransaction \<Rightarrow> string" where
  "getGasPrice this rawTx = defaultGasLevel this"

text \<open>
  \<^verbatim>\<open>getGasEstimate\<close>: \<open>Inl\<close> is the value the promise rejects with, \<open>Inr\<close> the value it
  resolves with. The test \<^verbatim>\<open>if (response.error)\<close> is true for a string that is present
  and not empty.
\<close>

definition getGasEstimate :: "GasCalculator \<Rightarrow> RawTransaction \<Rightarrow> string + string" where
  "getGasEstimate this rawTx =
     (let targetChain = \<lparr>chain_type = ''ethereum'',
                          chain_id = parseInt (RawTransaction.chainId rawTx) (Some 16)\<rparr>;
          payload = rpcPayload ''eth_estimateGas'' [PTx rawTx] 1;
          response = send_callback (connection this) payload targetChain
      in case error response of
           Some e \<Rightarrow> if e \<noteq> [] then Inl e else Inr (result response)
         | None \<Rightarrow> Inr (result response))"

definition feeHistoryBlocks :: "FeeHistoryResponse \<Rightarrow> Block list" where
  "feeHistoryBlocks feeHistory =
     mapIndexed
       (\<lambda>baseFee i.
          \<lparr>baseFee = parseInt baseFee (Some 16),
           rewards = map (\<lambda>reward. parseInt reward (Some 16))
                       (case elemAt (reward feeHistory) i of Some rs \<Rightarrow> rs | None \<Rightarrow> []),
           gasUsedRatio = elemAt (FeeHistoryResponse.gasUsedRatio feeHistory) i\<rparr>)
       (baseFeePerGas feeHistory) 0"

text \<open>\<^verbatim>\<open>_getFeeHistory\<close> (a name cannot start with an underscore here).\<close>

definition getFeeHistory :: "GasCalculator \<Rightarrow> int \<Rightarrow> int list \<Rightarrow> string \<Rightarrow> error + Block list" where
  "getFeeHistory this numBlocks rewardPercentiles newestBlock =
     (let payload = rpcPayload ''eth_feeHistory''
                      [PNum numBlocks, PStr newestBlock, PNums rewardPercentiles] 1
      in case send (connection this) payload of
           Inl e \<Rightarrow> Inl e
         | Inr feeHistory \<Rightarrow> Inr (feeHistoryBlocks feeHistory))"

text \<open>The local constants of \<^verbatim>\<open>getFeePerGas\<close>, each as a function of what it is computed from.\<close>

definition nextBlockFee :: "Block list \<Rightarrow> jsnumber" where
  "nextBlockFee blocks = baseFee (last blocks)"

text \<open>
  \<^verbatim>\<open>Math.ceil(nextBlockFee * 1.125 * 1.125)\<close> in doubles. \<^verbatim>\<open>1.125\<close> is \<open>9 / 8\<close>, and rounding
  to 53 significant bits commutes with a division by a power of two: the first product is
  \<open>m1 / 8\<close> with \<open>m1\<close> the rounding of nine times the fee, the second is \<open>m2 / 64\<close> with \<open>m2\<close>
  the rounding of nine times \<open>m1\<close>, an infinity when it reaches \<open>2 ^ 1024\<close>. The ceiling of
  a double is a double.
\<close>

definition calculatedFee :: "jsnumber \<Rightarrow> jsnumber" where
  "calculatedFee fee =
     (case fee of
        NaN \<Rightarrow> NaN
      | Num n \<Rightarrow>
          (let m1 = roundSignificand (9 * nat \<bar>n\<bar>);
               m2 = roundSignificand (9 * m1)
           in if 2 ^ 1030 \<le> m2 then (if n < 0 then NegInfinity else Infinity)
              else Num \<lceil>(if n < 0 then - of_int (int m2) else of_int (int m2)) / 64 :: rat\<rceil>)
      | Infinity \<Rightarrow> Infinity
      | NegInfinity \<Rightarrow> NegInfinity)"

definition eligible :: "Block \<Rightarrow> bool" where
  "eligible block =
     (case gasUsedRatio block of None \<Rightarrow> False | Some r \<Rightarrow> r \<ge> 0.1 \<and> r \<le> 0.9)"

definition eligibleRewardsBlocks :: "Block list \<Rightarrow> jsnumber option list" where
  "eligibleRewardsBlocks blocks = map (\<lambda>block. elemAt (rewards block) 0) (filter eligible blocks)"

text \<open>
  \<^verbatim>\<open>eligibleRewardsBlocks.sort()[Math.floor(eligibleRewardsBlocks.length / 2)]\<close>: the
  element read may be \<^verbatim>\<open>undefined\<close>, either because the index is out of range (no eligible
  block) or because an eligible block had no reward sample.
\<close>

definition selectedReward :: "jsnumber option list \<Rightarrow> jsnumber option" where
  "selectedReward rs =
     (case elemAt (sort_js rs) (length rs div 2) of None \<Rightarrow> None | Some r \<Rightarrow> r)"

text \<open>\<^verbatim>\<open>x || d\<close> for a possibly undefined number \<open>x\<close>.\<close>

definition or_js :: "jsnumber option \<Rightarrow> jsnumber \<Rightarrow> jsnumber" where
  "or_js x d = (case x of None \<Rightarrow> d | Some r \<Rightarrow> if truthy x then r else d)"

definition medianReward :: "jsnumber option list \<Rightarrow> jsnumber" where
  "medianReward rs = or_js (selectedReward rs) (Num oneGwei)"

text \<open>
  The body of the \<^verbatim>\<open>try\<close>: \<open>Inl\<close> is an exception that reaches the \<^verbatim>\<open>catch\<close>. Reading
  \<^verbatim>\<open>.baseFee\<close> of the last block throws when there is no block, and each \<^verbatim>\<open>intToHex\<close> may
  throw.
\<close>

definition getFeePerGas_try :: "GasCalculator \<Rightarrow> error + Eip1559GasFees" where
  "getFeePerGas_try this =
     (case getFeeHistory this 10 [10] ''latest'' of
        Inl e \<Rightarrow> Inl e
      | Inr blocks \<Rightarrow>
          if blocks = [] then Inl TypeError
          else
            let fee = calculatedFee (nextBlockFee blocks);
                median = medianReward (eligibleRewardsBlocks blocks)
            in case intToHex fee of
                 Inl e \<Rightarrow> Inl e
               | Inr base \<Rightarrow>
                   (case intToHex median of
                      Inl e \<Rightarrow> Inl e
                    | Inr priority \<Rightarrow>
                        (case intToHex (plus_js fee median) of
                           Inl e \<Rightarrow> Inl e
                         | Inr feeSum \<Rightarrow>
                             Inr \<lparr>maxBaseFeePerGas = base,
                                  maxPriorityFeePerGas = priority,
                                  maxFeePerGas = feeSum\<rparr>)))"

text \<open>The \<^verbatim>\<open>catch\<close>: its two \<^verbatim>\<open>intToHex\<close> calls are not guarded by anything.\<close>

definition getFeePerGas_catch :: "GasCalculator \<Rightarrow> error + Eip1559GasFees" where
  "getFeePerGas_catch this =
     (case intToHex (Num oneGwei) of
        Inl e \<Rightarrow> Inl e
      | Inr priority \<Rightarrow>
          (case intToHex (plus_js (parseInt (defaultGasLevel this) None) (Num oneGwei)) of
             Inl e \<Rightarrow> Inl e
           | Inr feeSum \<Rightarrow>
               Inr \<lparr>maxBaseFeePerGas = defaultGasLevel this,
                    maxPriorityFeePerGas = priority,
                    maxFeePerGas = feeSum\<rparr>))"

definition getFeePerGas :: "GasCalculator \<Rightarrow> error + Eip1559GasFees" where
  "getFeePerGas this =
     (case getFeePerGas_try this of
        Inr fees \<Rightarrow> Inr fees
      | Inl e \<Rightarrow> getFeePerGas_catch this)"

section \<open>Balances (src/main/externalData/balances)\<close>

text \<open>
  \<open>Inl\<close> is a rejected promise or a thrown exception, \<open>Inr\<close> a resolved promise.
  \<^verbatim>\<open>Promise.all\<close> resolves with all the values when every promise resolves and rejects as
  soon as one rejects; of several rejections the model reports the first of the list.
\<close>

fun promiseAll :: "(error + 'a) list \<Rightarrow> error + 'a list" where
  "promiseAll [] = Inr []"
| "promiseAll (p # ps) =
     (case p of
        Inl e \<Rightarrow> Inl e
      | Inr v \<Rightarrow> (case promiseAll ps of Inl e \<Rightarrow> Inl e | Inr vs \<Rightarrow> Inr (v # vs)))"

text \<open>\<^verbatim>\<open>xs.map((x, i) => f(x, i))\<close> where the callback may throw: the first throw ends the map.\<close>

fun mapIndexedThrowing ::
  "('a \<Rightarrow> nat \<Rightarrow> error + 'b) \<Rightarrow> 'a list \<Rightarrow> nat \<Rightarrow> error + 'b list" where
  "mapIndexedThrowing f [] i = Inr []"
| "mapIndexedThrowing f (x # xs) i =
     (case f x i of
        Inl e \<Rightarrow> Inl e
      | Inr y \<Rightarrow>
          (case mapIndexedThrowing f xs (Suc i) of Inl e \<Rightarrow> Inl e | Inr ys \<Rightarrow> Inr (y # ys)))"

definition addHexPrefix :: "string \<Rightarrow> string" where
  "addHexPrefix str = (if take 2 str = ''0x'' then str else ''0x'' @ str)"

record TokenDefinition =
  chainId :: nat
  name :: string
  symbol :: string
  address :: string
  decimals :: nat
  logoUri :: "string option"

record ExternalBalance =
  balance :: string
  displayBalance :: string

text \<open>
  The object \<^verbatim>\<open>{ ...tokens[i], ...balance }\<close>. The two sources have no field in common, so
  the object is the pair of them; a source that is \<^verbatim>\<open>undefined\<close> contributes no field and is
  \<open>None\<close>.
\<close>

record TokenBalance =
  token :: "TokenDefinition option"
  externalBalance :: "ExternalBalance option"

text \<open>
  The objects \<^verbatim>\<open>getNativeCurrencyBalance\<close> returns. A field that the object literal does not
  have is \<open>None\<close>.
\<close>

record CurrencyBalance =
  balance :: string
  displayBalance :: "string option"
  displayValue :: "string option"
  chainId :: nat

datatype EthParam = Text string | CallObject string string string

record EthRequest =
  req_method :: string
  req_jsonrpc :: "string option"
  req_id :: "nat option"
  req_chainId :: string
  req_params :: "EthParam list"

record Call =
  target :: string
  call :: "string list"
  returns :: "(nat \<Rightarrow> ExternalBalance) list"

record CallResult =
  success :: bool
  returnValues :: "ExternalBalance list"

text \<open>
  What the balance code calls and the repository's files do not contain: the provider
  \<^verbatim>\<open>eth\<close>, the multicall module, the ERC-20 interface of ethers and the decimal arithmetic
  of bignumber.js (\<open>shiftedBy raw d\<close> stands for
  \<^verbatim>\<open>new BigNumber(raw).shiftedBy(-d).toString()\<close>). \<open>decodeBalance\<close> stands for
  \<^verbatim>\<open>decodeFunctionResult('balanceOf', response).balance.toHexString()\<close>.
\<close>

record Environment =
  request :: "EthRequest \<Rightarrow> error + string"
  multicallSupportsChain :: "jsnumber \<Rightarrow> bool"
  batchCall :: "jsnumber \<Rightarrow> Call list \<Rightarrow> error + CallResult list"
  encodeFunctionData :: "string \<Rightarrow> error + string"
  decodeBalance :: "string \<Rightarrow> error + string"
  toHexString :: "nat \<Rightarrow> string"
  shiftedBy :: "string \<Rightarrow> nat \<Rightarrow> string"

definition createBalance :: "Environment \<Rightarrow> string \<Rightarrow> nat \<Rightarrow> ExternalBalance" where
  "createBalance env rawBalance places =
     \<lparr>ExternalBalance.balance = rawBalance,
      ExternalBalance.displayBalance = shiftedBy env rawBalance places\<rparr>"

definition balanceCalls :: "Environment \<Rightarrow> string \<Rightarrow> TokenDefinition list \<Rightarrow> Call list" where
  "balanceCalls env owner tokens =
     map (\<lambda>t.
            \<lparr>target = address t,
             call = [''function balanceOf(address address) returns (uint256 value)'', owner],
             returns = [\<lambda>bn. createBalance env (toHexString env bn) (decimals t)]\<rparr>)
         tokens"

definition getNativeCurrencyBalance ::
  "Environment \<Rightarrow> string \<Rightarrow> nat \<Rightarrow> error + CurrencyBalance" where
  "getNativeCurrencyBalance env addr chain =
     (case request env
             \<lparr>req_method = ''eth_getBalance'', req_jsonrpc = None, req_id = None,
              req_chainId = addHexPrefix (toString 16 (Num (int chain))),
              req_params = [Text addr, Text ''latest'']\<rparr> of
        Inr rawBalance \<Rightarrow>
          Inr \<lparr>CurrencyBalance.balance = ExternalBalance.balance (createBalance env rawBalance 18),
               CurrencyBalance.displayBalance =
                 Some (ExternalBalance.displayBalance (createBalance env rawBalance 18)),
               displayValue = None,
               CurrencyBalance.chainId = chain\<rparr>
      | Inl e \<Rightarrow>
          Inr \<lparr>CurrencyBalance.balance = ''0x0'',
               CurrencyBalance.displayBalance = None,
               displayValue = Some ''0.0'',
               CurrencyBalance.chainId = chain\<rparr>)"

text \<open>
  \<^verbatim>\<open>getTokenBalance\<close>. The module's counter \<^verbatim>\<open>id\<close> is passed in and returned; it is
  incremented when the request object is built, so not when encoding the call data throws.
\<close>

definition getTokenBalance ::
  "Environment \<Rightarrow> TokenDefinition \<Rightarrow> string \<Rightarrow> nat \<Rightarrow> (error + string) \<times> nat" where
  "getTokenBalance env t owner id0 =
     (case encodeFunctionData env owner of
        Inl e \<Rightarrow> (Inr ''0x0'', id0)
      | Inr functionData \<Rightarrow>
          (case request env
                  \<lparr>req_method = ''eth_call'', req_jsonrpc = Some ''2.0'', req_id = Some (id0 + 1),
                   req_chainId = addHexPrefix (toString 16 (Num (int (TokenDefinition.chainId t)))),
                   req_params = [CallObject (address t) ''0x0'' functionData, Text ''latest'']\<rparr> of
             Inl e \<Rightarrow> (Inr ''0x0'', id0 + 1)
           | Inr response \<Rightarrow>
               (case decodeBalance env response of
                  Inl e \<Rightarrow> (Inr ''0x0'', id0 + 1)
                | Inr hex \<Rightarrow> (Inr hex, id0 + 1))))"

text \<open>One callback of the \<^verbatim>\<open>map\<close> in \<^verbatim>\<open>getTokenBalancesFromContracts\<close>.\<close>

definition contractBalance ::
  "Environment \<Rightarrow> string \<Rightarrow> TokenDefinition \<Rightarrow> nat \<Rightarrow> (error + TokenBalance) \<times> nat" where
  "contractBalance env owner t id0 =
     (case getTokenBalance env t owner id0 of
        (Inl e, id1) \<Rightarrow> (Inl e, id1)
      | (Inr rawBalance, id1) \<Rightarrow>
          (Inr \<lparr>token = Some t,
                externalBalance = Some (createBalance env rawBalance (decimals t))\<rparr>, id1))"

fun contractBalances ::
  "Environment \<Rightarrow> string \<Rightarrow> TokenDefinition list \<Rightarrow> nat \<Rightarrow> (error + TokenBalance) list \<times> nat" where
  "contractBalances env owner [] id0 = ([], id0)"
| "contractBalances env owner (t # ts) id0 =
     (case contractBalance env owner t id0 of
        (p, id1) \<Rightarrow>
          (case contractBalances env owner ts id1 of (ps, id2) \<Rightarrow> (p # ps, id2)))"

definition getTokenBalancesFromContracts ::
  "Environment \<Rightarrow> string \<Rightarrow> TokenDefinition list \<Rightarrow> nat \<Rightarrow> (error + TokenBalance list) \<times> nat" where
  "getTokenBalancesFromContracts env owner tokens id0 =
     (case contractBalances env owner tokens id0 of (balances, id1) \<Rightarrow> (promiseAll balances, id1))"

text \<open>
  \<^verbatim>\<open>getTokenBalancesFromMulticall\<close>. Nothing catches a rejection of \<^verbatim>\<open>batchCall\<close>. In the
  callback \<^verbatim>\<open>tokens[i]\<close> is \<^verbatim>\<open>undefined\<close> when the batch has more results than there are
  tokens; reading its \<^verbatim>\<open>decimals\<close> then throws.
\<close>

definition getTokenBalancesFromMulticall ::
  "Environment \<Rightarrow> string \<Rightarrow> TokenDefinition list \<Rightarrow> jsnumber \<Rightarrow> error + TokenBalance list" where
  "getTokenBalancesFromMulticall env owner tokens chain =
     (case batchCall env chain (balanceCalls env owner tokens) of
        Inl e \<Rightarrow> Inl e
      | Inr results \<Rightarrow>
          mapIndexedThrowing
            (\<lambda>result i.
               if success result
               then Inr \<lparr>token = elemAt tokens i,
                         externalBalance = elemAt (returnValues result) 0\<rparr>
               else (case elemAt tokens i of
                       None \<Rightarrow> Inl TypeError
                     | Some t \<Rightarrow>
                         Inr \<lparr>token = Some t,
                              externalBalance = Some (createBalance env ''0x0'' (decimals t))\<rparr>))
            results 0)"

definition getCurrencyBalances ::
  "Environment \<Rightarrow> string \<Rightarrow> nat list \<Rightarrow> error + CurrencyBalance list" where
  "getCurrencyBalances env addr chainIds =
     promiseAll (map (getNativeCurrencyBalance env addr) chainIds)"

subsection \<open>Grouping by chain (reducers.ts)\<close>

text \<open>
  \<^verbatim>\<open>TokensByChain\<close> is an object keyed by chain id. Its properties are kept in the order
  in which JavaScript enumerates them: keys that are array indices (integers below
  \<open>2 ^ 32 - 1\<close>) in ascending order, then the other keys in the order of their creation.
  The key of a chain id is the string of that number, \<open>objectKey\<close>. Different JavaScript
  numbers have different strings, so for chain ids that are \<open>representable\<close> the
  properties are listed here under the chain ids themselves; the string is what
  \<^verbatim>\<open>Object.entries\<close> hands to the callback, which reads a number back from it with
  \<^verbatim>\<open>parseInt\<close>. That number is the chain id when the string is in plain digits, below
  \<open>10 ^ 21\<close>, and the digits before the point or the exponent from there on.
\<close>

definition objectKey :: "nat \<Rightarrow> string" where
  "objectKey chain = toString 10 (Num (int chain))"

type_synonym TokensByChain = "(nat \<times> TokenDefinition list) list"

definition isArrayIndex :: "nat \<Rightarrow> bool" where
  "isArrayIndex k = (k < 2 ^ 32 - 1)"

text \<open>\<^verbatim>\<open>{ ...obj, [k]: v }\<close>: a key that exists keeps its place, a new one is enumerated where its kind puts it.\<close>

fun setProperty :: "nat \<Rightarrow> 'v \<Rightarrow> (nat \<times> 'v) list \<Rightarrow> (nat \<times> 'v) list" where
  "setProperty k v [] = [(k, v)]"
| "setProperty k v ((k', v') # ps) =
     (if k = k' then (k, v) # ps
      else if isArrayIndex k \<and> (\<not> isArrayIndex k' \<or> k < k') then (k, v) # (k', v') # ps
      else (k', v') # setProperty k v ps)"

definition groupByChain :: "TokensByChain \<Rightarrow> TokenDefinition \<Rightarrow> TokensByChain" where
  "groupByChain grouped t =
     setProperty (TokenDefinition.chainId t)
       ((case map_of grouped (TokenDefinition.chainId t) of None \<Rightarrow> [] | Some ts \<Rightarrow> ts) @ [t])
       grouped"

subsection \<open>\<^verbatim>\<open>getTokenBalances\<close> (scan.ts)\<close>

text \<open>
  The callback over \<^verbatim>\<open>Object.entries(tokensByChain)\<close>, chain after chain. The calls of a
  chain are all issued before those of the next chain, so the counter is threaded through
  the chains in order.
\<close>

fun chainBalances ::
  "Environment \<Rightarrow> string \<Rightarrow> TokensByChain \<Rightarrow> nat \<Rightarrow> (error + TokenBalance list) list \<times> nat" where
  "chainBalances env owner [] id0 = ([], id0)"
| "chainBalances env owner ((chain, tokens) # rest) id0 =
     (case (let chainId = parseInt (objectKey chain) None
            in if multicallSupportsChain env chainId
               then (getTokenBalancesFromMulticall env owner tokens chainId, id0)
               else getTokenBalancesFromContracts env owner tokens id0) of
        (p, id1) \<Rightarrow>
          (case chainBalances env owner rest id1 of (ps, id2) \<Rightarrow> (p # ps, id2)))"

definition getTokenBalances ::
  "Environment \<Rightarrow> string \<Rightarrow> TokenDefinition list \<Rightarrow> nat \<Rightarrow> (error + TokenBalance list) \<times> nat" where
  "getTokenBalances env owner tokens id0 =
     (let tokensByChain = foldl groupByChain [] tokens
      in case chainBalances env owner tokensByChain id0 of
           (tokenBalances, id1) \<Rightarrow>
             (case promiseAll tokenBalances of
                Inl e \<Rightarrow> (Inl e, id1)
              | Inr bs \<Rightarrow> (Inr (concat bs), id1)))"

section \<open>Notions used to state the claims\<close>

text \<open>
  A hex-encoded integer is \<^verbatim>\<open>0x\<close> followed by at least one hexadecimal digit; its value is
  the number the digits denote.
\<close>

definition isHexEncoded :: "string \<Rightarrow> bool" where
  "isHexEncoded s = (take 2 s = ''0x'' \<and> drop 2 s \<noteq> [] \<and> list_all (isDigit 16) (drop 2 s))"

definition hexValue :: "string \<Rightarrow> nat" where
  "hexValue s = digitsValue 16 (drop 2 s)"

text \<open>The response the connection hands to the callback of \<^verbatim>\<open>getGasEstimate\<close>.\<close>

definition gasEstimateResponse :: "GasCalculator \<Rightarrow> RawTransaction \<Rightarrow> GasEstimateResponse" where
  "gasEstimateResponse this rawTx =
     send_callback (connection this) (rpcPayload ''eth_estimateGas'' [PTx rawTx] 1)
       \<lparr>chain_type = ''ethereum'', chain_id = parseInt (RawTransaction.chainId rawTx) (Some 16)\<rparr>"

text \<open>The priority fee as the specification words it: sort ascending, take index \<open>count div 2\<close>.\<close>

definition ascendingMedian :: "int list \<Rightarrow> int option" where
  "ascendingMedian rs = (if rs = [] then None else Some (sort rs ! (length rs div 2)))"

text \<open>
  Orders of chains. \<open>firstOccurrences\<close> keeps the first occurrence of each element;
  \<open>propertyOrder\<close> is the order in which JavaScript enumerates the keys of an object to which
  the keys were added one after the other.
\<close>

definition firstOccurrences :: "'a list \<Rightarrow> 'a list" where
  "firstOccurrences xs = rev (remdups (rev xs))"

definition propertyOrder :: "nat list \<Rightarrow> nat list" where
  "propertyOrder ks =
     sort (remdups (filter isArrayIndex ks)) @
     firstOccurrences (filter (\<lambda>k. \<not> isArrayIndex k) ks)"

definition tokensOfChain :: "TokenDefinition list \<Rightarrow> nat \<Rightarrow> TokenDefinition list" where
  "tokensOfChain tokens c = filter (\<lambda>t. TokenDefinition.chainId t = c) tokens"

definition firstAppearanceOrder :: "TokenDefinition list \<Rightarrow> TokenDefinition list" where
  "firstAppearanceOrder tokens =
     concat (map (tokensOfChain tokens) (firstOccurrences (map TokenDefinition.chainId tokens)))"

definition enumerationOrder :: "TokenDefinition list \<Rightarrow> TokenDefinition list" where
  "enumerationOrder tokens =
     concat (map (tokensOfChain tokens) (propertyOrder (map TokenDefinition.chainId tokens)))"

text \<open>What \<open>setProperty\<close> does to the list of keys.\<close>

fun insertKey :: "nat \<Rightarrow> nat list \<Rightarrow> nat list" where
  "insertKey k [] = [k]"
| "insertKey k (k' # ks) =
     (if k = k' then k' # ks
      else if isArrayIndex k \<and> (\<not> isArrayIndex k' \<or> k < k') then k # k' # ks
      else k' # insertKey k ks)"

text \<open>What one result of a batch and the token of the same position are merged into.\<close>

definition mergeResult :: "Environment \<Rightarrow> TokenDefinition \<Rightarrow> CallResult \<Rightarrow> TokenBalance" where
  "mergeResult env t r =
     \<lparr>token = Some t,
      externalBalance =
        (if success r then elemAt (returnValues r) 0
         else Some (createBalance env ''0x0'' (decimals t)))\<rparr>"

text \<open>The identity of an entry of the result: the chain id and address of its token.\<close>

definition identity :: "TokenBalance \<Rightarrow> (nat \<times> string) option" where
  "identity b = map_option (\<lambda>t. (TokenDefinition.chainId t, address t)) (token b)"

section \<open>Example inputs\<close>

definition historyCalculator :: "FeeHistoryResponse \<Rightarrow> string \<Rightarrow> GasCalculator" where
  "historyCalculator h level =
     \<lparr>connection = \<lparr>send_callback = (\<lambda>p t. \<lparr>error = None, result = ''0x5208''\<rparr>),
                     send = (\<lambda>p. Inr h)\<rparr>,
      defaultGasLevel = level\<rparr>"

definition failingCalculator :: "string \<Rightarrow> GasCalculator" where
  "failingCalculator level =
     \<lparr>connection = \<lparr>send_callback = (\<lambda>p t. \<lparr>error = Some ''execution reverted'', result = []\<rparr>),
                     send = (\<lambda>p. Inl (TransportError ''timeout''))\<rparr>,
      defaultGasLevel = level\<rparr>"

definition exampleTransaction :: RawTransaction where
  "exampleTransaction =
     \<lparr>RawTransaction.chainId = ''0x1'',
      txFields = [(''to'', ''0x6b175474e89094c44da98b954eedeac495271d0f''), (''value'', ''0x0'')]\<rparr>"

definition specExampleHistory :: FeeHistoryResponse where
  "specExampleHistory =
     \<lparr>baseFeePerGas = [''0x64'', ''0x64'', ''0x64'', ''0x64'', ''0x64'', ''0x64'', ''0x64'',
                       ''0x64'', ''0x64'', ''0x6e''],
      gasUsedRatio = [0.5, 0.95, 0.3, 0.05, 0.92, 0.7, 1, 0.99, 0.01],
      reward = [[''0x2''], [''0x9''], [''0x3''], [''0x7''], [''0x8''], [''0x4''], [''0x5''],
                [''0x6''], [''0x1'']]\<rparr>"

definition stringOrderHistory :: FeeHistoryResponse where
  "stringOrderHistory =
     \<lparr>baseFeePerGas = [''0x64'', ''0x64'', ''0x64'', ''0x64''],
      gasUsedRatio = [0.5, 0.5, 0.5],
      reward = [[''0x1dcd6500''], [''0x3b9aca00''], [''0x77359400'']]\<rparr>"

definition zeroRewardHistory :: FeeHistoryResponse where
  "zeroRewardHistory =
     \<lparr>baseFeePerGas = [''0x64'', ''0x64'', ''0x64'', ''0x6e''],
      gasUsedRatio = [0.5, 0.5, 0.5],
      reward = [[''0x0''], [''0x5''], [''0x0'']]\<rparr>"

definition dai :: TokenDefinition where
  "dai = \<lparr>TokenDefinition.chainId = 1, name = ''Dai Stablecoin'', symbol = ''DAI'',
          address = ''0x6b175474e89094c44da98b954eedeac495271d0f'', decimals = 18,
          logoUri = None\<rparr>"

definition usdcPolygon :: TokenDefinition where
  "usdcPolygon = \<lparr>TokenDefinition.chainId = 137, name = ''USD Coin'', symbol = ''USDC'',
          address = ''0x2791bca1f2de4661ed88a30c99a7a9449aa84174'', decimals = 6,
          logoUri = None\<rparr>"

definition weth :: TokenDefinition where
  "weth = \<lparr>TokenDefinition.chainId = 1, name = ''Wrapped Ether'', symbol = ''WETH'',
          address = ''0xc02aaa39b223fe8d0a0e5c4f27ead9083c756cc2'', decimals = 18,
          logoUri = None\<rparr>"

definition palmDai :: TokenDefinition where
  "palmDai = \<lparr>TokenDefinition.chainId = 11297108109, name = ''Dai Stablecoin'', symbol = ''DAI'',
          address = ''0x4c1f6fcbd233241bf2f4d02811e3bf8429bc27b8'', decimals = 18,
          logoUri = None\<rparr>"

definition ownerAddress :: string where
  "ownerAddress = ''0xd8da6bf26964af9d7eed9e03e53415d37aa96045''"

text \<open>
  A stand-in for the decimal arithmetic, enough to tell the display strings of the examples
  apart: zero is printed as \<^verbatim>\<open>0\<close>, any other raw balance is followed by the number of places
  it is shifted by.
\<close>

definition exampleShiftedBy :: "string \<Rightarrow> nat \<Rightarrow> string" where
  "exampleShiftedBy raw places =
     (if raw = ''0x0'' then ''0'' else raw @ ''e-'' @ toString 10 (Num (int places)))"

text \<open>An environment in which every request fails and no chain has multicall.\<close>

definition offlineEnvironment :: Environment where
  "offlineEnvironment =
     \<lparr>request = (\<lambda>r. Inl (TransportError ''not connected'')),
      multicallSupportsChain = (\<lambda>c. False),
      batchCall = (\<lambda>c calls. Inl (TransportError ''not connected'')),
      encodeFunctionData = (\<lambda>owner. Inr (''0x70a08231'' @ owner)),
      decodeBalance = (\<lambda>response. Inr response),
      toHexString = (\<lambda>n. ''0x'' @ toString 16 (Num (int n))),
      shiftedBy = exampleShiftedBy\<rparr>"

text \<open>Chain 1 has multicall and its batched call rejects.\<close>

definition rejectingBatchEnvironment :: Environment where
  "rejectingBatchEnvironment =
     \<lparr>request = (\<lambda>r. Inr ''0x0de0b6b3a7640000''),
      multicallSupportsChain = (\<lambda>c. c = Num 1),
      batchCall = (\<lambda>c calls. Inl (TransportError ''batch failed'')),
      encodeFunctionData = (\<lambda>owner. Inr (''0x70a08231'' @ owner)),
      decodeBalance = (\<lambda>response. Inr response),
      toHexString = (\<lambda>n. ''0x'' @ toString 16 (Num (int n))),
      shiftedBy = exampleShiftedBy\<rparr>"

text \<open>Chain 1 has multicall; the batch reports the first call failed and the others succeeded.\<close>

definition partialBatchEnvironment :: Environment where
  "partialBatchEnvironment =
     \<lparr>request = (\<lambda>r. Inr ''0x0de0b6b3a7640000''),
      multicallSupportsChain = (\<lambda>c. c = Num 1),
      batchCall = (\<lambda>c calls.
         Inr (mapIndexed (\<lambda>cl i. if i = 0 then \<lparr>success = False, returnValues = []\<rparr>
                                  else \<lparr>success = True, returnValues = map (\<lambda>f. f 5) (returns cl)\<rparr>)
                calls 0)),
      encodeFunctionData = (\<lambda>owner. Inr (''0x70a08231'' @ owner)),
      decodeBalance = (\<lambda>response. Inr response),
      toHexString = (\<lambda>n. ''0x'' @ toString 16 (Num (int n))),
      shiftedBy = exampleShiftedBy\<rparr>"

section \<open>Auxiliary facts\<close>

subsection \<open>Rounding\<close>

lemma shiftFor_small: "n < 2 ^ 53 \<Longrightarrow> shiftFor n = 0"
  by (simp add: shiftFor.simps [of n])

lemma roundSignificand_small: "n < 2 ^ 53 \<Longrightarrow> roundSignificand n = n"
  by (simp add: roundSignificand_def shiftFor_small)

lemma shiftFor_big:
  "2 ^ 53 \<le> n \<Longrightarrow> 0 < shiftFor n \<and> 2 ^ 52 \<le> n div 2 ^ shiftFor n"
proof (induction n rule: shiftFor.induct)
  case (1 n)
  from "1.prems" have unfold: "shiftFor n = Suc (shiftFor (n div 2))"
    by (simp add: shiftFor.simps [of n])
  show ?case
  proof (cases "n div 2 < 2 ^ 53")
    case True
    with "1.prems" show ?thesis
      by (simp add: unfold div_mult2_eq shiftFor_small)
  next
    case False
    with "1.IH" "1.prems" show ?thesis
      by (simp add: unfold div_mult2_eq)
  qed
qed

lemma roundSignificand_big:
  assumes "2 ^ 53 \<le> n"
  shows "2 ^ 53 \<le> roundSignificand n"
proof -
  define s where "s = shiftFor n"
  define q where "q = n div 2 ^ s"
  from shiftFor_big [OF assms] have s: "0 < s" and q: "2 ^ 52 \<le> q"
    by (simp_all add: s_def q_def)
  from s have "(2::nat) ^ 1 \<le> 2 ^ s"
    by (intro power_increasing) simp_all
  with q have "(2::nat) ^ 52 * 2 ^ 1 \<le> q * 2 ^ s"
    by (rule mult_le_mono)
  moreover have "q * 2 ^ s \<le> roundSignificand n"
    by (simp add: roundSignificand_def Let_def s_def q_def)
  ultimately show ?thesis by simp
qed

lemma roundInt_exact: "\<bar>i\<bar> < 2 ^ 53 \<Longrightarrow> roundInt i = Num i"
proof -
  assume a: "\<bar>i\<bar> < 2 ^ 53"
  then have "nat \<bar>i\<bar> < 2 ^ 53"
    by (simp add: nat_less_iff)
  then have m: "roundSignificand (nat \<bar>i\<bar>) = nat \<bar>i\<bar>"
    by (rule roundSignificand_small)
  have "nat \<bar>i\<bar> < 2 ^ 1024"
    using \<open>nat \<bar>i\<bar> < 2 ^ 53\<close> by (rule less_trans) simp
  then have "\<not> 2 ^ 1024 \<le> nat \<bar>i\<bar>"
    by (simp only: not_le)
  then show ?thesis
    by (simp only: roundInt_def m Let_def if_False) simp
qed

lemma roundInt_big:
  assumes "2 ^ 53 \<le> i"
  shows "roundInt i = Infinity \<or> (\<exists>m. roundInt i = Num m \<and> 2 ^ 53 \<le> m)"
proof -
  from assms have "2 ^ 53 \<le> nat \<bar>i\<bar>"
    by (simp add: le_nat_iff)
  then have "2 ^ 53 \<le> roundSignificand (nat \<bar>i\<bar>)"
    by (rule roundSignificand_big)
  then have "2 ^ 53 \<le> int (roundSignificand (nat \<bar>i\<bar>))"
    by (simp add: le_nat_iff [symmetric])
  with assms show ?thesis
    by (auto simp: roundInt_def Let_def)
qed

lemma roundSignificand_pos: "0 < n \<Longrightarrow> 0 < roundSignificand n"
proof (cases "n < 2 ^ 53")
  case True
  assume "0 < n"
  with True show ?thesis by (simp add: roundSignificand_small)
next
  case False
  then have "2 ^ 53 \<le> roundSignificand n"
    by (intro roundSignificand_big) simp
  then show ?thesis
    by (rule less_le_trans [rotated]) simp
qed

lemma roundInt_negative:
  assumes "i < 0"
  shows "roundInt i = NegInfinity \<or> (\<exists>m. roundInt i = Num m \<and> m < 0)"
proof -
  from assms have "0 < nat \<bar>i\<bar>" by simp
  then have "0 < roundSignificand (nat \<bar>i\<bar>)"
    by (rule roundSignificand_pos)
  with assms show ?thesis
    by (auto simp: roundInt_def Let_def)
qed

lemma calculatedFee_exact:
  assumes "0 \<le> n" "81 * n < 2 ^ 53"
  shows "calculatedFee (Num n) = Num (- ((- (n * 81)) div 64))"
proof -
  from assms have n: "81 * nat n < 2 ^ 53"
    by (simp add: nat_less_iff nat_mult_distrib)
  then have m1: "roundSignificand (9 * nat n) = 9 * nat n"
    by (simp add: roundSignificand_small)
  have m2: "roundSignificand (9 * (9 * nat n)) = 81 * nat n"
    using n by (simp add: roundSignificand_small)
  have "(81::nat) * nat n < 2 ^ 1030"
    using n by (rule less_trans) simp
  then have small: "\<not> (2::nat) ^ 1030 \<le> 81 * nat n"
    by simp
  have "(of_int (int (81 * nat n)) :: rat) / 64 = of_int (n * 81) / of_int 64"
    using assms(1) by simp
  then have "\<lceil>(of_int (int (81 * nat n)) :: rat) / 64\<rceil> = - ((- (n * 81)) div 64)"
    by (simp only: ceiling_divide_eq_div)
  moreover have "\<bar>n\<bar> = n" "\<not> n < 0"
    using assms(1) by simp_all
  ultimately show ?thesis
    using small by (simp only: calculatedFee_def jsnumber.case m1 m2 Let_def if_False)
qed


text \<open>
  Above the bound the doubles round: the second product of this fee lies halfway between
  two doubles and is rounded to the even one, one below the exact ceiling.
\<close>

lemma calculatedFee_rounds:
  "calculatedFee (Num 111208877424689) = Num 140748735490622 \<and>
   \<lceil>of_int 111208877424689 * 1.125 * 1.125 :: rat\<rceil> = 140748735490623"
proof -
  have "of_int 111208877424689 * 1.125 * 1.125 =
          (of_int (111208877424689 * 81) / of_int 64 :: rat)"
    by simp
  then have exact: "\<lceil>of_int 111208877424689 * 1.125 * 1.125 :: rat\<rceil> = 140748735490623"
    by (simp only: ceiling_divide_eq_div)
  have m1: "roundSignificand 1000879896822201 = 1000879896822201"
    by (rule roundSignificand_small) simp
  have s: "shiftFor 9007919071399809 = 1"
    by (simp add: shiftFor.simps [of 9007919071399809] shiftFor_small)
  have m2: "roundSignificand 9007919071399809 = 9007919071399808"
    by (simp add: roundSignificand_def s)
  have "(of_int (int 9007919071399808) :: rat) / 64 = of_int 9007919071399808 / of_int 64"
    by simp
  then have c: "\<lceil>(of_int (int 9007919071399808) :: rat) / 64\<rceil> = 140748735490622"
    by (simp only: ceiling_divide_eq_div)
  have a1: "9 * nat \<bar>111208877424689\<bar> = 1000879896822201"
    and a2: "9 * (1000879896822201::nat) = 9007919071399809"
    and finite: "\<not> (2::nat) ^ 1030 \<le> 9007919071399808"
    and sign: "\<not> (111208877424689::int) < 0"
    by simp_all
  have "calculatedFee (Num 111208877424689) = Num 140748735490622"
    by (simp only: calculatedFee_def jsnumber.case a1 m1 a2 m2 Let_def finite sign if_False c)
  with exact show ?thesis by simp
qed

lemmas digit_defs = digitChar_def digits_def upperLetters_def digitValue_def isDigit_def
  digitsValue_def isWhiteSpace_def natToString.simps toString_def digitsOf_def roundInt_exact

lemmas fee_defs = getFeePerGas_def getFeePerGas_try_def getFeePerGas_catch_def getFeeHistory_def
  feeHistoryBlocks_def rpcPayload_def nextBlockFee_def eligible_def eligibleRewardsBlocks_def
  medianReward_def selectedReward_def or_js_def elemAt_def intToHex_def parseInt_def
  roundInt_exact calculatedFee_exact MAX_SAFE_INTEGER_def oneGwei_def Let_def

lemmas balance_defs = getTokenBalances_def getTokenBalancesFromContracts_def
  getTokenBalancesFromMulticall_def contractBalance_def getTokenBalance_def
  groupByChain_def isArrayIndex_def createBalance_def balanceCalls_def elemAt_def
  addHexPrefix_def getCurrencyBalances_def getNativeCurrencyBalance_def Let_def

subsection \<open>Hexadecimal digits\<close>

lemma indexOf_nth:
  "distinct xs \<Longrightarrow> k < length xs \<Longrightarrow> indexOf (xs ! k) xs i = Some (i + k)"
proof (induction xs arbitrary: k i)
  case Nil
  then show ?case by simp
next
  case (Cons x xs)
  show ?case
  proof (cases k)
    case 0
    then show ?thesis by simp
  next
    case (Suc j)
    with Cons.prems have j: "j < length xs" and "xs ! j \<noteq> x"
      by auto
    with Cons.IH [of j "Suc i"] Cons.prems show ?thesis
      by (simp add: Suc)
  qed
qed

lemma distinct_digits: "distinct digits"
  by (simp add: digits_def)

lemma digitValue_digitChar: "d < 16 \<Longrightarrow> digitValue (digitChar d) = Some d"
  using indexOf_nth [OF distinct_digits, of d 0]
  by (simp add: digitValue_def digitChar_def digits_def)

lemma isDigit_digitChar: "d < 16 \<Longrightarrow> isDigit 16 (digitChar d)"
  by (simp add: isDigit_def digitValue_digitChar)

lemma digitsValue_snoc:
  "digitsValue r (xs @ [c]) = digitsValue r xs * r + the (digitValue c)"
  by (simp add: digitsValue_def)

lemma natToString_small: "n < 16 \<Longrightarrow> natToString 16 n = [digitChar n]"
  by (simp add: natToString.simps [of 16 n])

lemma natToString_big:
  "\<not> n < 16 \<Longrightarrow> natToString 16 n = natToString 16 (n div 16) @ [digitChar (n mod 16)]"
  by (simp add: natToString.simps [of 16 n])

lemma digitsValue_natToString: "digitsValue 16 (natToString 16 n) = n"
proof (induction n rule: less_induct)
  case (less n)
  show ?case
  proof (cases "n < 16")
    case True
    then show ?thesis
      by (simp add: natToString_small digitsValue_def digitValue_digitChar)
  next
    case False
    then have "n div 16 < n" by simp
    then have "digitsValue 16 (natToString 16 (n div 16)) = n div 16"
      by (rule less.IH)
    then show ?thesis using False
      by (simp add: natToString_big digitsValue_snoc digitValue_digitChar)
  qed
qed

lemma natToString_digits: "list_all (isDigit 16) (natToString 16 n)"
proof (induction n rule: less_induct)
  case (less n)
  show ?case
  proof (cases "n < 16")
    case True
    then show ?thesis by (simp add: natToString_small isDigit_digitChar)
  next
    case False
    then have "n div 16 < n" by simp
    then have "list_all (isDigit 16) (natToString 16 (n div 16))"
      by (rule less.IH)
    then show ?thesis using False
      by (simp add: natToString_big isDigit_digitChar)
  qed
qed

lemma natToString_nonempty: "natToString 16 n \<noteq> []"
  by (cases "n < 16") (simp_all add: natToString_small natToString_big)

lemma intToHex_Inr:
  assumes "intToHex x = Inr s"
  obtains n where "x = Num n" "0 \<le> n" "n \<le> MAX_SAFE_INTEGER" "s = ''0x'' @ natToString 16 (nat n)"
  using assms by (cases x) (auto simp: intToHex_def toString_def digitsOf_def split: if_splits)

lemma intToHex_Num:
  "0 \<le> n \<Longrightarrow> n \<le> MAX_SAFE_INTEGER \<Longrightarrow> intToHex (Num n) = Inr (''0x'' @ natToString 16 (nat n))"
  by (simp add: intToHex_def toString_def digitsOf_def)

lemma intToHex_roundInt:
  assumes "intToHex (roundInt i) = Inr s"
  shows "0 \<le> i \<and> i \<le> MAX_SAFE_INTEGER \<and> s = ''0x'' @ natToString 16 (nat i)"
proof -
  have "\<not> i < 0"
  proof
    assume "i < 0"
    from roundInt_negative [OF this] assms show False
      by (auto simp: intToHex_def)
  qed
  moreover have "\<not> 2 ^ 53 \<le> i"
  proof
    assume "2 ^ 53 \<le> i"
    from roundInt_big [OF this] assms show False
      by (auto simp: intToHex_def MAX_SAFE_INTEGER_def)
  qed
  ultimately have range: "0 \<le> i" "i < 2 ^ 53"
    by simp_all
  then have "roundInt i = Num i"
    by (simp add: roundInt_exact)
  with assms range show ?thesis
    by (auto simp: intToHex_def toString_def digitsOf_def MAX_SAFE_INTEGER_def split: if_splits)
qed

lemma isHexEncoded_hex: "isHexEncoded (CHR ''0'' # CHR ''x'' # natToString 16 n)"
  by (simp add: isHexEncoded_def natToString_nonempty natToString_digits)

lemma hexValue_hex: "hexValue (CHR ''0'' # CHR ''x'' # natToString 16 n) = n"
  by (simp add: hexValue_def digitsValue_natToString)

lemma takeWhile_all: "list_all P xs \<Longrightarrow> takeWhile P xs = xs"
  by (induction xs) auto

lemma parseInt_hexEncoded:
  assumes "isHexEncoded s"
  shows "parseInt s None = roundInt (int (hexValue s))"
proof -
  from assms obtain ds where s: "s = CHR ''0'' # CHR ''x'' # ds" and ds: "ds \<noteq> []"
    and all: "list_all (isDigit 16) ds"
    by (cases s; cases "tl s") (auto simp: isHexEncoded_def)
  show ?thesis
    using ds all
    by (simp add: s parseInt_def isWhiteSpace_def hexValue_def takeWhile_all Let_def)
qed

subsection \<open>Decimal digits and the keys of an object\<close>

lemma isDigit_decimal: "d < 10 \<Longrightarrow> isDigit 10 (digitChar d)"
  by (simp add: isDigit_def digitValue_digitChar)

lemma natToString_decimal_small: "n < 10 \<Longrightarrow> natToString 10 n = [digitChar n]"
  by (simp add: natToString.simps [of 10 n])

lemma natToString_decimal_big:
  "\<not> n < 10 \<Longrightarrow> natToString 10 n = natToString 10 (n div 10) @ [digitChar (n mod 10)]"
  by (simp add: natToString.simps [of 10 n])

lemma digitsValue_decimal: "digitsValue 10 (natToString 10 n) = n"
proof (induction n rule: less_induct)
  case (less n)
  show ?case
  proof (cases "n < 10")
    case True
    then show ?thesis
      by (simp add: natToString_decimal_small digitsValue_def digitValue_digitChar)
  next
    case False
    then have "n div 10 < n" by simp
    then have "digitsValue 10 (natToString 10 (n div 10)) = n div 10"
      by (rule less.IH)
    moreover have "n mod 10 < 16" by simp
    ultimately show ?thesis using False
      by (simp add: natToString_decimal_big digitsValue_snoc digitValue_digitChar)
  qed
qed

lemma natToString_decimal_digits: "list_all (isDigit 10) (natToString 10 n)"
proof (induction n rule: less_induct)
  case (less n)
  show ?case
  proof (cases "n < 10")
    case True
    then show ?thesis by (simp add: natToString_decimal_small isDigit_decimal)
  next
    case False
    then have "n div 10 < n" by simp
    then have "list_all (isDigit 10) (natToString 10 (n div 10))"
      by (rule less.IH)
    then show ?thesis using False
      by (simp add: natToString_decimal_big isDigit_decimal)
  qed
qed

lemma natToString_decimal_nonempty: "natToString 10 n \<noteq> []"
  by (cases "n < 10") (simp_all add: natToString_decimal_small natToString_decimal_big)

lemma isDigit_decimal_plain:
  assumes "isDigit 10 c"
  shows "\<not> isWhiteSpace c" "c \<noteq> CHR ''+''" "c \<noteq> CHR ''-''" "c \<noteq> CHR ''x''" "c \<noteq> CHR ''X''"
  using assms
  by (auto simp: isDigit_def digitValue_def digits_def upperLetters_def isWhiteSpace_def)

lemma parseInt_decimal:
  assumes "list_all (isDigit 10) s" and "s \<noteq> []"
  shows "parseInt s None = roundInt (int (digitsValue 10 s))"
proof -
  from assms obtain c cs where s: "s = c # cs" and c: "isDigit 10 c" and cs: "list_all (isDigit 10) cs"
    by (cases s) auto
  have space: "dropWhile isWhiteSpace s = s"
    using isDigit_decimal_plain(1) [OF c] by (simp add: s)
  have sign: "take 1 s \<noteq> ''+''" "take 1 s \<noteq> ''-''"
    using isDigit_decimal_plain(2,3) [OF c] by (simp_all add: s)
  have two: "take 2 s \<noteq> ''0x''" "take 2 s \<noteq> ''0X''"
    using cs isDigit_decimal_plain(4,5) by (cases cs; auto simp: s)+
  have Z: "takeWhile (isDigit 10) s = s"
    using assms(1) by (rule takeWhile_all)
  show ?thesis
    unfolding parseInt_def Let_def space
    using sign two assms(2) by (simp add: Z)
qed

lemma parseInt_objectKey:
  assumes "chain < 2 ^ 53"
  shows "parseInt (objectKey chain) None = Num (int chain)"
proof -
  have "objectKey chain = natToString 10 chain"
    using assms by (simp add: objectKey_def toString_def digitsOf_def)
  moreover have "roundInt (int chain) = Num (int chain)"
    using assms by (simp add: roundInt_exact)
  ultimately show ?thesis
    by (simp add: parseInt_decimal natToString_decimal_digits natToString_decimal_nonempty
        digitsValue_decimal)
qed

text \<open>
  From \<open>10 ^ 21\<close> on the key is in exponent form, and \<^verbatim>\<open>parseInt\<close> stops at the point or at
  the \<^verbatim>\<open>e\<close>. A reward of sixteen digits and more is rounded when it is parsed.
\<close>

lemma natToString_sextillion: "length (natToString 10 1000000000000000000000) = 22"
  by (simp add: natToString.simps)

lemma roundInt_sextillion: "roundInt 1000000000000000000000 = Num 1000000000000000000000"
  by (simp add: roundInt_def roundSignificand_def shiftFor.simps Let_def)

lemma roundInt_two_sextillion: "roundInt 2000000000000000000000 = Num 2000000000000000000000"
  by (simp add: roundInt_def roundSignificand_def shiftFor.simps Let_def)

lemma roundInt_ten_sextillion: "roundInt 10000000000000000000000 = Num 10000000000000000000000"
  by (simp add: roundInt_def roundSignificand_def shiftFor.simps Let_def)

lemma shortestDigits_sextillion: "shortestDigits 1000000000000000000000 22 (Suc 0) = 1"
  by (subst shortestDigits.simps) (simp add: Let_def roundInt_sextillion roundInt_two_sextillion)

lemma decimalForm_sextillion: "decimalForm 1000000000000000000000 = ''1e+21''"
  unfolding decimalForm_def natToString_sextillion
  by (simp add: roundInt_ten_sextillion shortestDigits_sextillion Let_def natToString.simps digitChar_def digits_def)

lemma objectKey_exponent:
  "objectKey (10 ^ 21) = ''1e+21'' \<and> parseInt (objectKey (10 ^ 21)) None = Num 1"
proof -
  have key: "objectKey (10 ^ 21) = ''1e+21''"
    by (simp add: objectKey_def toString_def digitsOf_def decimalForm_sextillion)
  have "parseInt ''1e+21'' None = Num 1"
    by (simp add: parseInt_def isWhiteSpace_def isDigit_def digitValue_def digits_def
        upperLetters_def digitsValue_def roundInt_exact Let_def)
  with key show ?thesis by simp
qed

lemma parseInt_rounds: "parseInt ''0x470de4df81ffff'' (Some 16) = Num 20000000000000000"
  by (simp add: parseInt_def isWhiteSpace_def isDigit_def digitValue_def digits_def
      upperLetters_def digitsValue_def roundInt_def roundSignificand_def shiftFor.simps Let_def)

subsection \<open>The fee estimate\<close>

lemma medianReward_falsy:
  "\<not> truthy (selectedReward rs) \<Longrightarrow> medianReward rs = Num oneGwei"
  by (cases "selectedReward rs") (simp_all add: medianReward_def or_js_def)


lemma getFeePerGas_try_Inr:
  assumes "getFeePerGas_try this = Inr fees"
  obtains c r where "0 \<le> c" "0 \<le> r"
    "fees = \<lparr>maxBaseFeePerGas = ''0x'' @ natToString 16 (nat c),
             maxPriorityFeePerGas = ''0x'' @ natToString 16 (nat r),
             maxFeePerGas = ''0x'' @ natToString 16 (nat (c + r))\<rparr>"
proof -
  from assms obtain blocks where
    hist: "getFeeHistory this 10 [10] ''latest'' = Inr blocks" and ne: "blocks \<noteq> []"
    by (auto simp: getFeePerGas_try_def split: sum.splits if_splits)
  define fee where "fee = calculatedFee (nextBlockFee blocks)"
  define median where "median = medianReward (eligibleRewardsBlocks blocks)"
  from assms hist ne obtain b p t where
    b: "intToHex fee = Inr b" and p: "intToHex median = Inr p"
    and t: "intToHex (plus_js fee median) = Inr t"
    and fees: "fees = \<lparr>maxBaseFeePerGas = b, maxPriorityFeePerGas = p, maxFeePerGas = t\<rparr>"
    by (auto simp: getFeePerGas_try_def fee_def median_def Let_def split: sum.splits)
  from b obtain c where c: "fee = Num c" "0 \<le> c" "b = ''0x'' @ natToString 16 (nat c)"
    by (rule intToHex_Inr)
  from p obtain r where r: "median = Num r" "0 \<le> r" "p = ''0x'' @ natToString 16 (nat r)"
    by (rule intToHex_Inr)
  from t c r have "intToHex (roundInt (c + r)) = Inr t"
    by simp
  from intToHex_roundInt [OF this] have "t = ''0x'' @ natToString 16 (nat (c + r))"
    by simp
  with c r fees that show thesis by blast
qed

lemma getFeePerGas_catch_level:
  assumes "parseInt (defaultGasLevel this) None = Num n" "0 \<le> n"
    and "n + oneGwei \<le> MAX_SAFE_INTEGER"
  shows "getFeePerGas_catch this =
           Inr \<lparr>maxBaseFeePerGas = defaultGasLevel this,
                maxPriorityFeePerGas = ''0x3b9aca00'',
                maxFeePerGas = ''0x'' @ natToString 16 (nat (n + oneGwei))\<rparr>"
proof -
  have "intToHex (Num oneGwei) = Inr ''0x3b9aca00''"
    by (simp add: intToHex_def MAX_SAFE_INTEGER_def oneGwei_def digit_defs)
  moreover have "intToHex (Num (n + oneGwei)) = Inr (''0x'' @ natToString 16 (nat (n + oneGwei)))"
    using assms by (simp add: intToHex_Num oneGwei_def)
  moreover have "roundInt (n + oneGwei) = Num (n + oneGwei)"
    using assms by (simp add: roundInt_exact MAX_SAFE_INTEGER_def oneGwei_def)
  ultimately show ?thesis
    using assms by (simp add: getFeePerGas_catch_def)
qed

lemma getFeePerGas_cases:
  "getFeePerGas this =
     (case getFeePerGas_try this of Inr fees \<Rightarrow> Inr fees | Inl e \<Rightarrow> getFeePerGas_catch this)"
  by (simp add: getFeePerGas_def)

subsection \<open>Batched and direct balance calls\<close>

lemma mapIndexedThrowing_merge:
  assumes "i + length results = length tokens"
  shows "mapIndexedThrowing
           (\<lambda>result i.
              if success result
              then Inr \<lparr>token = elemAt tokens i, externalBalance = elemAt (returnValues result) 0\<rparr>
              else (case elemAt tokens i of
                      None \<Rightarrow> Inl TypeError
                    | Some t \<Rightarrow>
                        Inr \<lparr>token = Some t,
                             externalBalance = Some (createBalance env ''0x0'' (decimals t))\<rparr>))
           results i
         = Inr (map (\<lambda>(t, r). mergeResult env t r) (zip (drop i tokens) results))"
  using assms
proof (induction results arbitrary: i)
  case Nil
  then show ?case by simp
next
  case (Cons r rs)
  then have i: "i < length tokens" and rest: "Suc i + length rs = length tokens"
    by simp_all
  from i have d: "drop i tokens = tokens ! i # drop (Suc i) tokens"
    by (simp add: Cons_nth_drop_Suc)
  show ?case
    using i by (simp add: Cons.IH [OF rest] d elemAt_def mergeResult_def)
qed

lemma getTokenBalancesFromMulticall_merge:
  assumes "batchCall env chain (balanceCalls env owner tokens) = Inr results"
    and "length results = length tokens"
  shows "getTokenBalancesFromMulticall env owner tokens chain =
           Inr (map (\<lambda>(t, r). mergeResult env t r) (zip tokens results))"
  using assms mapIndexedThrowing_merge [of 0 results tokens env]
  by (simp add: getTokenBalancesFromMulticall_def)

lemma map_token_merge:
  "length results = length tokens \<Longrightarrow>
   map (token \<circ> (\<lambda>(t, r). mergeResult env t r)) (zip tokens results) = map Some tokens"
  by (induction tokens results rule: list_induct2') (simp_all add: mergeResult_def)

lemma contractBalance_Inr:
  "\<exists>b. fst (contractBalance env owner t id0) = Inr b \<and> token b = Some t"
  by (auto simp: contractBalance_def getTokenBalance_def split: sum.splits prod.splits)

lemma contractBalances_resolve:
  "\<exists>bs. promiseAll (fst (contractBalances env owner ts id0)) = Inr bs \<and> map token bs = map Some ts"
proof (induction ts arbitrary: id0)
  case Nil
  then show ?case by simp
next
  case (Cons t ts)
  obtain p id1 where p: "contractBalance env owner t id0 = (p, id1)"
    by (cases "contractBalance env owner t id0")
  obtain ps id2 where ps: "contractBalances env owner ts id1 = (ps, id2)"
    by (cases "contractBalances env owner ts id1")
  from contractBalance_Inr [of env owner t id0] p obtain b where b: "p = Inr b" "token b = Some t"
    by auto
  from Cons.IH [of id1] ps obtain bs where bs: "promiseAll ps = Inr bs" "map token bs = map Some ts"
    by auto
  show ?case by (simp add: p ps b bs)
qed

lemma getTokenBalancesFromContracts_resolve:
  "\<exists>bs. fst (getTokenBalancesFromContracts env owner ts id0) = Inr bs \<and> map token bs = map Some ts"
  using contractBalances_resolve [of env owner ts id0]
  by (auto simp: getTokenBalancesFromContracts_def split: prod.splits)

lemma chainBalances_resolve:
  assumes "\<forall>(c, ts) \<in> set G. multicallSupportsChain env (parseInt (objectKey c) None) \<longrightarrow>
             (\<exists>results. batchCall env (parseInt (objectKey c) None) (balanceCalls env owner ts) =
                          Inr results \<and>
                        length results = length ts)"
  shows "\<exists>bss. promiseAll (fst (chainBalances env owner G id0)) = Inr bss \<and>
               map (map token) bss = map (\<lambda>(c, ts). map Some ts) G"
  using assms
proof (induction G arbitrary: id0)
  case Nil
  then show ?case by simp
next
  case (Cons g G)
  obtain c ts where g: "g = (c, ts)" by (cases g)
  define chainId where "chainId = parseInt (objectKey c) None"
  define step where "step =
    (if multicallSupportsChain env chainId
     then (getTokenBalancesFromMulticall env owner ts chainId, id0)
     else getTokenBalancesFromContracts env owner ts id0)"
  have "\<exists>bs. fst step = Inr bs \<and> map token bs = map Some ts"
  proof (cases "multicallSupportsChain env chainId")
    case True
    with Cons.prems g obtain results where
      r: "batchCall env chainId (balanceCalls env owner ts) = Inr results"
        "length results = length ts"
      by (auto simp: chainId_def)
    then show ?thesis
      using True by (simp add: step_def getTokenBalancesFromMulticall_merge map_token_merge)
  next
    case False
    then show ?thesis
      using getTokenBalancesFromContracts_resolve [of env owner ts id0] by (simp add: step_def)
  qed
  then obtain bs id1 where s: "step = (Inr bs, id1)" and bs: "map token bs = map Some ts"
    by (cases step) auto
  from Cons.prems have "\<forall>(c, ts) \<in> set G. multicallSupportsChain env (parseInt (objectKey c) None) \<longrightarrow>
             (\<exists>results. batchCall env (parseInt (objectKey c) None) (balanceCalls env owner ts) =
                          Inr results \<and>
                        length results = length ts)"
    by simp
  from Cons.IH [OF this, of id1] obtain bss where
    bss: "promiseAll (fst (chainBalances env owner G id1)) = Inr bss"
      "map (map token) bss = map (\<lambda>(c, ts). map Some ts) G"
    by auto
  obtain ps id2 where ps: "chainBalances env owner G id1 = (ps, id2)"
    by (cases "chainBalances env owner G id1")
  show ?case
    using s bs bss ps by (simp add: g Let_def chainId_def [symmetric] step_def [symmetric])
qed

lemma length_mapIndexed: "length (mapIndexed f xs i) = length xs"
  by (induction xs arbitrary: i) simp_all

lemma getNativeCurrencyBalance_resolves:
  "\<exists>b. getNativeCurrencyBalance env addr chain = Inr b \<and> CurrencyBalance.chainId b = chain"
  by (auto simp: getNativeCurrencyBalance_def split: sum.splits)

lemma getCurrencyBalances_total:
  "\<exists>out. getCurrencyBalances env addr chainIds = Inr out \<and>
         map CurrencyBalance.chainId out = chainIds"
  unfolding getCurrencyBalances_def
proof (induction chainIds)
  case Nil
  then show ?case by simp
next
  case (Cons c cs)
  then obtain out where "promiseAll (map (getNativeCurrencyBalance env addr) cs) = Inr out"
    "map CurrencyBalance.chainId out = cs" by auto
  moreover obtain b where "getNativeCurrencyBalance env addr c = Inr b" "CurrencyBalance.chainId b = c"
    using getNativeCurrencyBalance_resolves by blast
  ultimately show ?case by simp
qed

subsection \<open>Grouping by chain\<close>

lemma setProperty_keys: "map fst (setProperty k v ps) = insertKey k (map fst ps)"
  by (induction ps) auto

lemma setProperty_map:
  "distinct (insertKey k ks) \<Longrightarrow>
   setProperty k v (map (\<lambda>k'. (k', f k')) ks) = map (\<lambda>k'. (k', (f(k := v)) k')) (insertKey k ks)"
  by (induction ks) auto

lemma insertKey_index:
  assumes "isArrayIndex k" "sorted I" "\<forall>i \<in> set I. isArrayIndex i" "\<forall>j \<in> set J. \<not> isArrayIndex j"
  shows "insertKey k (I @ J) = (if k \<in> set I then I else insort k I) @ J"
  using assms
proof (induction I)
  case Nil
  then show ?case by (cases J) auto
next
  case (Cons i I)
  then show ?case by (auto simp: insort_is_Cons)
qed

lemma insertKey_other:
  "\<not> isArrayIndex k \<Longrightarrow> insertKey k ks = (if k \<in> set ks then ks else ks @ [k])"
  by (induction ks) auto

lemma firstOccurrences_snoc:
  "firstOccurrences (xs @ [x]) =
     (if x \<in> set xs then firstOccurrences xs else firstOccurrences xs @ [x])"
  by (simp add: firstOccurrences_def)

lemma set_firstOccurrences: "set (firstOccurrences xs) = set xs"
  by (simp add: firstOccurrences_def)

lemma distinct_firstOccurrences: "distinct (firstOccurrences xs)"
  by (simp add: firstOccurrences_def)

lemma sort_remdups_set: "sort (remdups ys) = sorted_list_of_set (set ys)"
  by (simp only: sorted_list_of_set_sort_remdups)

lemma sort_remdups_snoc:
  "sort (remdups (xs @ [x])) =
     (if x \<in> set xs then sort (remdups xs) else insort x (sort (remdups xs)))"
proof (cases "x \<in> set xs")
  case True
  then have "set (xs @ [x]) = set xs" by auto
  then show ?thesis using True by (simp only: sort_remdups_set if_True)
next
  case False
  then have "set xs - {x} = set xs" by auto
  then have "sorted_list_of_set (insert x (set xs)) = insort x (sorted_list_of_set (set xs))"
    by simp
  moreover have "set (xs @ [x]) = insert x (set xs)" by simp
  ultimately show ?thesis using False by (simp only: sort_remdups_set if_False)
qed

lemma propertyOrder_snoc: "propertyOrder (ks @ [k]) = insertKey k (propertyOrder ks)"
proof (cases "isArrayIndex k")
  case True
  have "insertKey k (propertyOrder ks) =
          (if k \<in> set (sort (remdups (filter isArrayIndex ks)))
           then sort (remdups (filter isArrayIndex ks))
           else insort k (sort (remdups (filter isArrayIndex ks)))) @
          firstOccurrences (filter (\<lambda>k. \<not> isArrayIndex k) ks)"
    unfolding propertyOrder_def
    by (rule insertKey_index [OF True]) (auto simp: set_firstOccurrences)
  then show ?thesis
    using True by (simp add: propertyOrder_def sort_remdups_snoc)
next
  case False
  then show ?thesis
    by (auto simp: propertyOrder_def insertKey_other firstOccurrences_snoc set_firstOccurrences)
qed

lemma set_propertyOrder: "set (propertyOrder ks) = set ks"
  by (auto simp: propertyOrder_def set_firstOccurrences)

lemma distinct_propertyOrder: "distinct (propertyOrder ks)"
  by (auto simp: propertyOrder_def set_firstOccurrences distinct_firstOccurrences)

lemma tokensOfChain_snoc:
  "tokensOfChain (ts @ [t]) c =
     (if TokenDefinition.chainId t = c then tokensOfChain ts c @ [t] else tokensOfChain ts c)"
  by (simp add: tokensOfChain_def)

lemma tokensOfChain_absent:
  "c \<notin> set (map TokenDefinition.chainId ts) \<Longrightarrow> tokensOfChain ts c = []"
  by (auto simp: tokensOfChain_def filter_empty_conv)

lemma groups_in_property_order:
  "foldl groupByChain [] tokens =
     map (\<lambda>c. (c, tokensOfChain tokens c)) (propertyOrder (map TokenDefinition.chainId tokens))"
proof (induction tokens rule: rev_induct)
  case Nil
  then show ?case by (simp add: propertyOrder_def firstOccurrences_def)
next
  case (snoc t ts)
  define k where "k = TokenDefinition.chainId t"
  define cs where "cs = map TokenDefinition.chainId ts"
  define G where "G = map (\<lambda>c. (c, tokensOfChain ts c)) (propertyOrder cs)"
  have look: "(case map_of G k of None \<Rightarrow> [] | Some x \<Rightarrow> x) = tokensOfChain ts k"
  proof (cases "k \<in> set cs")
    case True
    then show ?thesis
      by (simp add: G_def map_of_map_restrict set_propertyOrder)
  next
    case False
    then show ?thesis
      by (simp add: G_def map_of_map_restrict set_propertyOrder tokensOfChain_absent cs_def)
  qed
  have d: "distinct (insertKey k (propertyOrder cs))"
    by (simp add: propertyOrder_snoc [symmetric] distinct_propertyOrder)
  have upd: "(tokensOfChain ts)(k := tokensOfChain ts k @ [t]) = tokensOfChain (ts @ [t])"
    by (rule ext) (simp add: tokensOfChain_snoc k_def)
  have "groupByChain G t =
          map (\<lambda>c. (c, tokensOfChain (ts @ [t]) c)) (insertKey k (propertyOrder cs))"
    unfolding groupByChain_def k_def [symmetric] look
    by (simp add: G_def setProperty_map [OF d] upd)
  then show ?case
    by (simp add: snoc.IH G_def cs_def k_def propertyOrder_snoc)
qed

lemma mset_by_chain:
  "distinct ks \<Longrightarrow> set (map TokenDefinition.chainId ts) \<subseteq> set ks \<Longrightarrow>
   mset (concat (map (tokensOfChain ts) ks)) = mset ts"
proof (induction ks arbitrary: ts)
  case Nil
  then show ?case by simp
next
  case (Cons k ks)
  define rest where "rest = filter (\<lambda>t. TokenDefinition.chainId t \<noteq> k) ts"
  have same: "map (tokensOfChain ts) ks = map (tokensOfChain rest) ks"
  proof (rule map_cong [OF refl])
    fix c assume "c \<in> set ks"
    with Cons.prems have "c \<noteq> k" by auto
    then show "tokensOfChain ts c = tokensOfChain rest c"
      by (auto simp: tokensOfChain_def rest_def intro: filter_cong)
  qed
  have "set (map TokenDefinition.chainId rest) \<subseteq> set ks"
    using Cons.prems by (auto simp: rest_def)
  with Cons have IH: "mset (concat (map (tokensOfChain rest) ks)) = mset rest"
    by simp
  have "mset (concat (map (tokensOfChain ts) (k # ks))) =
          mset (tokensOfChain ts k) + mset (concat (map (tokensOfChain rest) ks))"
    by (simp add: same)
  also have "\<dots> = mset (tokensOfChain ts k) + mset rest"
    by (simp only: IH)
  also have "\<dots> = mset ts"
    unfolding tokensOfChain_def rest_def
    by (metis mset_filter multiset_partition)
  finally show ?case .
qed

lemma mset_enumerationOrder: "mset (enumerationOrder tokens) = mset tokens"
  unfolding enumerationOrder_def
  by (rule mset_by_chain) (simp_all add: distinct_propertyOrder set_propertyOrder)

section \<open>The claims\<close>

subsection \<open>C1: order and completeness of the token balances\<close>

text \<open>
  Claim C1, as stated, orders the chains of the result by the position of each chain's
  first token in the input. The code groups the tokens in an object keyed by chain id and
  walks \<^verbatim>\<open>Object.entries\<close> of it, which enumerates integer keys in ascending order. For
  the input of a token on chain 137 followed by a token on chain 1 the result starts with
  the token of chain 1, while the order of first appearance starts with the token of chain
  137.
\<close>

theorem getTokenBalances_first_appearance_counterexample:
  "fst (getTokenBalances offlineEnvironment ownerAddress [usdcPolygon, dai] 1) =
     Inr [\<lparr>token = Some dai,
           externalBalance = Some \<lparr>ExternalBalance.balance = ''0x0'',
                                   ExternalBalance.displayBalance = ''0''\<rparr>\<rparr>,
          \<lparr>token = Some usdcPolygon,
           externalBalance = Some \<lparr>ExternalBalance.balance = ''0x0'',
                                   ExternalBalance.displayBalance = ''0''\<rparr>\<rparr>] \<and>
   firstAppearanceOrder [usdcPolygon, dai] = [usdcPolygon, dai] \<and>
   [dai, usdcPolygon] \<noteq> firstAppearanceOrder [usdcPolygon, dai]"
  by (simp add: balance_defs offlineEnvironment_def exampleShiftedBy_def firstAppearanceOrder_def
      firstOccurrences_def tokensOfChain_def dai_def usdcPolygon_def)

text \<open>
  Claim C1, amended: the chain ids are JavaScript numbers, and the chain number of a group
  is the one that \<^verbatim>\<open>parseInt\<close> reads from the group's key. When every batched call made
  for a chain number that supports batching resolves with one result per call,
  \<^verbatim>\<open>getTokenBalances\<close> resolves; its result has the length of the input and the same
  (chainId, address) identities; the chains come in the enumeration order of the object's
  keys (chain ids below \<open>2 ^ 32 - 1\<close> ascending, then the larger ones in order of first
  appearance) and the tokens of a chain in their input order.
\<close>

theorem getTokenBalances_enumeration_order:
  assumes numbers: "\<forall>c \<in> set (map TokenDefinition.chainId tokens). representable c"
    and resolves: "\<forall>c \<in> set (map TokenDefinition.chainId tokens).
             multicallSupportsChain env (parseInt (objectKey c) None) \<longrightarrow>
             (\<exists>results. batchCall env (parseInt (objectKey c) None)
                           (balanceCalls env owner (tokensOfChain tokens c)) = Inr results \<and>
                        length results = length (tokensOfChain tokens c))"
  shows "\<exists>out. fst (getTokenBalances env owner tokens id0) = Inr out \<and>
           length out = length tokens \<and>
           map token out = map Some (enumerationOrder tokens) \<and>
           mset (map identity out) =
             mset (map (\<lambda>t. Some (TokenDefinition.chainId t, address t)) tokens)"
proof -
  define G where "G = foldl groupByChain [] tokens"
  have G: "G = map (\<lambda>c. (c, tokensOfChain tokens c)) (propertyOrder (map TokenDefinition.chainId tokens))"
    unfolding G_def by (rule groups_in_property_order)
  have "\<forall>(c, ts) \<in> set G. multicallSupportsChain env (parseInt (objectKey c) None) \<longrightarrow>
             (\<exists>results. batchCall env (parseInt (objectKey c) None) (balanceCalls env owner ts) =
                          Inr results \<and>
                        length results = length ts)"
    using resolves by (auto simp: G set_propertyOrder)
  from chainBalances_resolve [OF this] obtain bss where
    bss: "promiseAll (fst (chainBalances env owner G id0)) = Inr bss"
      "map (map token) bss = map (\<lambda>(c, ts). map Some ts) G"
    by blast
  have res: "fst (getTokenBalances env owner tokens id0) = Inr (concat bss)"
    using bss(1) by (cases "chainBalances env owner G id0") (simp add: getTokenBalances_def G_def)
  have "map token (concat bss) = concat (map (map token) bss)"
    by (simp add: map_concat)
  also have "\<dots> = concat (map (\<lambda>c. map Some (tokensOfChain tokens c))
                        (propertyOrder (map TokenDefinition.chainId tokens)))"
    by (simp add: bss(2) G comp_def)
  also have "\<dots> = map Some (enumerationOrder tokens)"
    by (simp add: enumerationOrder_def map_concat comp_def)
  finally have order: "map token (concat bss) = map Some (enumerationOrder tokens)" .
  then have "length (map token (concat bss)) = length (map Some (enumerationOrder tokens))"
    by simp
  then have len: "length (concat bss) = length tokens"
    using mset_enumerationOrder [of tokens, THEN arg_cong, of size]
    by (simp del: length_concat)
  have "map identity (concat bss) =
          map (map_option (\<lambda>t. (TokenDefinition.chainId t, address t))) (map token (concat bss))"
    by (simp add: identity_def comp_def)
  also have "\<dots> = map (\<lambda>t. Some (TokenDefinition.chainId t, address t)) (enumerationOrder tokens)"
    by (simp only: order) (simp add: comp_def)
  finally have "mset (map identity (concat bss)) =
          image_mset (\<lambda>t. Some (TokenDefinition.chainId t, address t)) (mset (enumerationOrder tokens))"
    by simp
  then have ident: "mset (map identity (concat bss)) =
          mset (map (\<lambda>t. Some (TokenDefinition.chainId t, address t)) tokens)"
    by (simp add: mset_enumerationOrder)
  from res len order ident show ?thesis by blast
qed

text \<open>
  The amended claim at four tokens: one of a chain whose id is not an array index, one of
  a chain without batching and two of a chain with batching.
\<close>

theorem getTokenBalances_enumeration_order_witness:
  "\<exists>out. fst (getTokenBalances partialBatchEnvironment ownerAddress
                  [palmDai, usdcPolygon, dai, weth] 1) = Inr out \<and>
     length out = 4 \<and>
     map token out = [Some dai, Some weth, Some usdcPolygon, Some palmDai]"
proof -
  have chains: "TokenDefinition.chainId dai = 1" "TokenDefinition.chainId weth = 1"
    "TokenDefinition.chainId usdcPolygon = 137" "TokenDefinition.chainId palmDai = 11297108109"
    by (simp_all add: dai_def weth_def usdcPolygon_def palmDai_def)
  have numbers: "\<forall>c \<in> set (map TokenDefinition.chainId [palmDai, usdcPolygon, dai, weth]).
                   representable c"
    by (simp add: representable_def roundInt_exact chains)
  have hyp: "\<forall>c \<in> set (map TokenDefinition.chainId [palmDai, usdcPolygon, dai, weth]).
             multicallSupportsChain partialBatchEnvironment (parseInt (objectKey c) None) \<longrightarrow>
             (\<exists>results. batchCall partialBatchEnvironment (parseInt (objectKey c) None)
                           (balanceCalls partialBatchEnvironment ownerAddress
                              (tokensOfChain [palmDai, usdcPolygon, dai, weth] c)) = Inr results \<and>
                        length results = length (tokensOfChain [palmDai, usdcPolygon, dai, weth] c))"
    by (simp add: partialBatchEnvironment_def length_mapIndexed balanceCalls_def)
  have order: "enumerationOrder [palmDai, usdcPolygon, dai, weth] = [dai, weth, usdcPolygon, palmDai]"
    by (simp add: enumerationOrder_def propertyOrder_def firstOccurrences_def tokensOfChain_def
        isArrayIndex_def chains)
  from getTokenBalances_enumeration_order [OF numbers hyp, of 1] show ?thesis
    by (auto simp: order)
qed

subsection \<open>C2: the priority fee is the element at the middle of the sorted rewards\<close>

text \<open>
  Claim C2 asks for the rewards of the eligible blocks to be sorted in ascending numeric
  order. \<^verbatim>\<open>sort()\<close> is called without a comparison function, so the rewards are ordered as
  strings. For three eligible blocks with rewards of 0.5, 1 and 2 gwei the code selects
  2 gwei, where the ascending order selects 1 gwei.
\<close>

theorem getFeePerGas_string_order_median:
  "eligibleRewardsBlocks (feeHistoryBlocks stringOrderHistory) =
     [Some (Num 500000000), Some (Num 1000000000), Some (Num 2000000000)] \<and>
   ascendingMedian [500000000, 1000000000, 2000000000] = Some 1000000000 \<and>
   medianReward (eligibleRewardsBlocks (feeHistoryBlocks stringOrderHistory)) = Num 2000000000 \<and>
   getFeePerGas (historyCalculator stringOrderHistory ''0x3b9aca00'') =
     Inr \<lparr>maxBaseFeePerGas = ''0x7f'', maxPriorityFeePerGas = ''0x77359400'',
          maxFeePerGas = ''0x7735947f''\<rparr>"
proof -
  have elig: "eligibleRewardsBlocks (feeHistoryBlocks stringOrderHistory) =
     [Some (Num 500000000), Some (Num 1000000000), Some (Num 2000000000)]"
    by (simp add: eligibleRewardsBlocks_def eligible_def feeHistoryBlocks_def stringOrderHistory_def
        elemAt_def parseInt_def digit_defs Let_def)
  have spec: "ascendingMedian [500000000, 1000000000, 2000000000] = Some 1000000000"
    by (simp add: ascendingMedian_def)
  have med: "medianReward (eligibleRewardsBlocks (feeHistoryBlocks stringOrderHistory)) =
     Num 2000000000"
    by (simp add: elig medianReward_def selectedReward_def or_js_def elemAt_def digit_defs)
  have res: "getFeePerGas (historyCalculator stringOrderHistory ''0x3b9aca00'') =
     Inr \<lparr>maxBaseFeePerGas = ''0x7f'', maxPriorityFeePerGas = ''0x77359400'',
          maxFeePerGas = ''0x7735947f''\<rparr>"
    by (simp add: historyCalculator_def stringOrderHistory_def fee_defs digit_defs calculatedFee_exact)
  from elig spec med res show ?thesis by blast
qed

subsection \<open>C3: token balances and a batched call that rejects\<close>

text \<open>
  Claim C3 says that \<^verbatim>\<open>getTokenBalances\<close> resolves whatever the calls do, also when the
  batched call itself fails. \<^verbatim>\<open>getTokenBalancesFromMulticall\<close> awaits \<^verbatim>\<open>batchCall\<close> outside of
  any \<^verbatim>\<open>try\<close>: for one token of a chain with batching whose batched call rejects, the whole
  operation rejects with that error.
\<close>

theorem getTokenBalances_rejects_with_batch:
  "multicallSupportsChain rejectingBatchEnvironment
     (parseInt (objectKey (TokenDefinition.chainId dai)) None) \<and>
   fst (getTokenBalances rejectingBatchEnvironment ownerAddress [dai] 1) =
     Inl (TransportError ''batch failed'')"
  by (simp add: balance_defs rejectingBatchEnvironment_def dai_def objectKey_def parseInt_def
      roundInt_exact digit_defs)

subsection \<open>C4: the entry of a chain whose balance request fails\<close>

text \<open>
  Claim C4 says that the entry of a failed chain is a zero balance with its display
  string. The object the \<^verbatim>\<open>catch\<close> returns has the raw balance \<^verbatim>\<open>0x0\<close> and the chain id,
  but no \<^verbatim>\<open>displayBalance\<close>: the literal names the field \<^verbatim>\<open>displayValue\<close>. (That there is one
  entry per chain, in order, is \<open>getCurrencyBalances_total\<close> above.)
\<close>

theorem getCurrencyBalances_failure_entry:
  "getCurrencyBalances offlineEnvironment ownerAddress [1] =
     Inr [\<lparr>CurrencyBalance.balance = ''0x0'', CurrencyBalance.displayBalance = None,
           displayValue = Some ''0.0'', CurrencyBalance.chainId = 1\<rparr>]"
  by (simp add: balance_defs offlineEnvironment_def)

subsection \<open>C5: the fallback of the fee estimate\<close>

text \<open>
  Claim C5, as stated, says that \<^verbatim>\<open>getFeePerGas\<close> never rejects. The \<^verbatim>\<open>catch\<close> computes
  \<^verbatim>\<open>intToHex(parseInt(this.defaultGasLevel) + oneGwei)\<close>; with a default gas level that is
  not a number, here the empty string, \<^verbatim>\<open>parseInt\<close> gives \<^verbatim>\<open>NaN\<close>, \<^verbatim>\<open>intToHex\<close> throws and the
  promise rejects.
\<close>

theorem getFeePerGas_fallback_counterexample:
  "getFeePerGas_try (failingCalculator '''') = Inl (TransportError ''timeout'') \<and>
   getFeePerGas (failingCalculator '''') = Inl InvalidInteger"
  by (simp add: failingCalculator_def fee_defs digit_defs)

text \<open>
  Claim C5, amended: when the default gas level parses to an integer \<open>n\<close> that is not
  negative and \<open>n\<close> plus one gwei is a safe integer, \<^verbatim>\<open>getFeePerGas\<close> resolves, and whenever
  fetching or processing the fee history fails it resolves with the default gas level,
  one gwei and the hexadecimal form of \<open>n\<close> plus one gwei.
\<close>

theorem getFeePerGas_fallback:
  assumes "parseInt (defaultGasLevel this) None = Num n" "0 \<le> n"
    and "n + oneGwei \<le> MAX_SAFE_INTEGER"
  shows "(\<exists>fees. getFeePerGas this = Inr fees) \<and>
         (\<forall>e. getFeePerGas_try this = Inl e \<longrightarrow>
            getFeePerGas this =
              Inr \<lparr>maxBaseFeePerGas = defaultGasLevel this,
                   maxPriorityFeePerGas = ''0x3b9aca00'',
                   maxFeePerGas = ''0x'' @ toString 16 (Num (n + oneGwei))\<rparr>)"
proof -
  have n: "toString 16 (Num (n + oneGwei)) = natToString 16 (nat (n + oneGwei))"
    using assms(2) by (simp add: toString_def digitsOf_def oneGwei_def)
  show ?thesis
    using getFeePerGas_catch_level [OF assms]
    by (cases "getFeePerGas_try this") (simp_all add: getFeePerGas_def n)
qed

theorem getFeePerGas_fallback_witness:
  "parseInt (defaultGasLevel (failingCalculator ''0x3b9aca00'')) None = Num 1000000000 \<and>
   getFeePerGas_try (failingCalculator ''0x3b9aca00'') = Inl (TransportError ''timeout'') \<and>
   getFeePerGas (failingCalculator ''0x3b9aca00'') =
     Inr \<lparr>maxBaseFeePerGas = ''0x3b9aca00'', maxPriorityFeePerGas = ''0x3b9aca00'',
          maxFeePerGas = ''0x77359400''\<rparr>"
proof -
  let ?calc = "failingCalculator ''0x3b9aca00''"
  have level: "parseInt (defaultGasLevel ?calc) None = Num 1000000000"
    by (simp add: failingCalculator_def parseInt_def digit_defs Let_def)
  have tried: "getFeePerGas_try ?calc = Inl (TransportError ''timeout'')"
    by (simp add: getFeePerGas_try_def getFeeHistory_def failingCalculator_def)
  have "(0::int) \<le> 1000000000" and "1000000000 + oneGwei \<le> MAX_SAFE_INTEGER"
    by (simp_all add: oneGwei_def MAX_SAFE_INTEGER_def)
  from getFeePerGas_fallback [OF level this] tried
  have "getFeePerGas ?calc =
     Inr \<lparr>maxBaseFeePerGas = defaultGasLevel ?calc, maxPriorityFeePerGas = ''0x3b9aca00'',
          maxFeePerGas = ''0x'' @ toString 16 (Num (1000000000 + oneGwei))\<rparr>"
    by blast
  then have "getFeePerGas ?calc =
     Inr \<lparr>maxBaseFeePerGas = ''0x3b9aca00'', maxPriorityFeePerGas = ''0x3b9aca00'',
          maxFeePerGas = ''0x77359400''\<rparr>"
    by (simp add: failingCalculator_def oneGwei_def digit_defs)
  with level tried show ?thesis by blast
qed

subsection \<open>C6: the base fee component\<close>



subsection \<open>C7: the three fields are hex-encoded and add up\<close>

text \<open>
  Claim C7, as stated, covers the fallback too. The fallback returns the default gas
  level as it was given: with the default \<^verbatim>\<open>100\<close> the base fee field is \<^verbatim>\<open>100\<close>, which is not
  hex-encoded, and read as hexadecimal digits it does not add up with the other fields
  either.
\<close>

theorem getFeePerGas_wellformed_counterexample:
  "getFeePerGas (failingCalculator ''100'') =
     Inr \<lparr>maxBaseFeePerGas = ''100'', maxPriorityFeePerGas = ''0x3b9aca00'',
          maxFeePerGas = ''0x3b9aca64''\<rparr> \<and>
   \<not> isHexEncoded ''100'' \<and>
   digitsValue 16 ''100'' + hexValue ''0x3b9aca00'' \<noteq> hexValue ''0x3b9aca64''"
  by (simp add: failingCalculator_def fee_defs isHexEncoded_def hexValue_def digit_defs)

text \<open>
  Claim C7, amended: every estimate of the normal path has three hex-encoded fields with
  the maximum fee the sum of the other two; an estimate of the fallback has them when the
  default gas level is itself hex-encoded.
\<close>

theorem getFeePerGas_wellformed:
  assumes res: "getFeePerGas this = Inr fees"
    and level: "case getFeePerGas_try this of
                  Inr _ \<Rightarrow> True
                | Inl _ \<Rightarrow> isHexEncoded (defaultGasLevel this)"
  shows "isHexEncoded (maxBaseFeePerGas fees) \<and>
         isHexEncoded (maxPriorityFeePerGas fees) \<and>
         isHexEncoded (maxFeePerGas fees) \<and>
         hexValue (maxFeePerGas fees) =
           hexValue (maxBaseFeePerGas fees) + hexValue (maxPriorityFeePerGas fees)"
proof (cases "getFeePerGas_try this")
  case (Inr f)
  with res have "getFeePerGas_try this = Inr fees" by (simp add: getFeePerGas_def)
  then obtain c r where "0 \<le> c" "0 \<le> r"
    "fees = \<lparr>maxBaseFeePerGas = ''0x'' @ natToString 16 (nat c),
             maxPriorityFeePerGas = ''0x'' @ natToString 16 (nat r),
             maxFeePerGas = ''0x'' @ natToString 16 (nat (c + r))\<rparr>"
    by (rule getFeePerGas_try_Inr)
  then show ?thesis
    by (simp add: isHexEncoded_hex hexValue_hex nat_add_distrib)
next
  case (Inl e)
  with level have hex: "isHexEncoded (defaultGasLevel this)" by simp
  then have parse: "parseInt (defaultGasLevel this) None =
                      roundInt (int (hexValue (defaultGasLevel this)))"
    by (rule parseInt_hexEncoded)
  from Inl res have catch: "getFeePerGas_catch this = Inr fees" by (simp add: getFeePerGas_def)
  have gwei: "intToHex (Num oneGwei) = Inr (''0x'' @ natToString 16 (nat oneGwei))"
    by (simp add: intToHex_Num MAX_SAFE_INTEGER_def oneGwei_def)
  define v where "v = int (hexValue (defaultGasLevel this))"
  from catch parse gwei obtain t where
    sum: "intToHex (plus_js (roundInt v) (Num oneGwei)) = Inr t"
    and fees: "fees = \<lparr>maxBaseFeePerGas = defaultGasLevel this,
                        maxPriorityFeePerGas = ''0x'' @ natToString 16 (nat oneGwei),
                        maxFeePerGas = t\<rparr>"
    by (auto simp: getFeePerGas_catch_def v_def split: sum.splits)
  have v0: "0 \<le> v"
    by (simp add: v_def)
  have small: "v < 2 ^ 53"
  proof (rule ccontr)
    assume "\<not> v < 2 ^ 53"
    then have big: "2 ^ 53 \<le> v" by simp
    from roundInt_big [OF big] show False
    proof
      assume "roundInt v = Infinity"
      with sum show False by (simp add: intToHex_def)
    next
      assume "\<exists>m. roundInt v = Num m \<and> 2 ^ 53 \<le> m"
      then obtain m where m: "roundInt v = Num m" "2 ^ 53 \<le> m" by blast
      with sum have "intToHex (roundInt (m + oneGwei)) = Inr t" by simp
      from intToHex_roundInt [OF this] have "m + oneGwei \<le> MAX_SAFE_INTEGER"
        by simp
      with m(2) show False
        by (simp add: MAX_SAFE_INTEGER_def oneGwei_def)
    qed
  qed
  with v0 have "roundInt v = Num v"
    by (simp add: roundInt_exact)
  with sum have "intToHex (roundInt (v + oneGwei)) = Inr t"
    by simp
  from intToHex_roundInt [OF this]
  have "t = ''0x'' @ natToString 16 (nat (int (hexValue (defaultGasLevel this)) + oneGwei))"
    by (simp add: v_def)
  with fees hex show ?thesis
    by (simp add: isHexEncoded_hex hexValue_hex nat_add_distrib oneGwei_def)
qed

theorem getFeePerGas_wellformed_witness:
  "getFeePerGas (failingCalculator ''0x3b9aca00'') =
     Inr \<lparr>maxBaseFeePerGas = ''0x3b9aca00'', maxPriorityFeePerGas = ''0x3b9aca00'',
          maxFeePerGas = ''0x77359400''\<rparr> \<and>
   isHexEncoded ''0x3b9aca00'' \<and> isHexEncoded ''0x77359400'' \<and>
   hexValue ''0x77359400'' = hexValue ''0x3b9aca00'' + hexValue ''0x3b9aca00''"
proof -
  let ?calc = "failingCalculator ''0x3b9aca00''"
  let ?fees = "\<lparr>maxBaseFeePerGas = ''0x3b9aca00'', maxPriorityFeePerGas = ''0x3b9aca00'',
          maxFeePerGas = ''0x77359400''\<rparr>"
  have res: "getFeePerGas ?calc = Inr ?fees"
    by (simp add: failingCalculator_def fee_defs digit_defs)
  have level: "case getFeePerGas_try ?calc of Inr _ \<Rightarrow> True
               | Inl _ \<Rightarrow> isHexEncoded (defaultGasLevel ?calc)"
    by (simp add: getFeePerGas_try_def getFeeHistory_def failingCalculator_def isHexEncoded_def
        digit_defs)
  from getFeePerGas_wellformed [OF res level] res show ?thesis
    by simp
qed

subsection \<open>C8: merging the results of a batch\<close>

text \<open>
  Claim C8: when the batched call resolves with one result per call, the result at each
  position is merged onto the token at that position; a failed call gives the raw balance
  \<^verbatim>\<open>0x0\<close> shifted by that token's decimals, a successful call keeps the first value it
  returned.
\<close>

theorem getTokenBalancesFromMulticall_positional:
  assumes "batchCall env chain (balanceCalls env owner tokens) = Inr results"
    and "length results = length tokens"
  shows "\<exists>out. getTokenBalancesFromMulticall env owner tokens chain = Inr out \<and>
           length out = length tokens \<and>
           (\<forall>i < length tokens.
              token (out ! i) = Some (tokens ! i) \<and>
              externalBalance (out ! i) =
                (if success (results ! i) then elemAt (returnValues (results ! i)) 0
                 else Some \<lparr>ExternalBalance.balance = ''0x0'',
                            ExternalBalance.displayBalance =
                              shiftedBy env ''0x0'' (decimals (tokens ! i))\<rparr>))"
proof -
  have "getTokenBalancesFromMulticall env owner tokens chain =
          Inr (map (\<lambda>(t, r). mergeResult env t r) (zip tokens results))"
    using assms by (rule getTokenBalancesFromMulticall_merge)
  then show ?thesis
    using assms(2) by (simp add: mergeResult_def createBalance_def)
qed

theorem getTokenBalancesFromMulticall_positional_witness:
  "\<exists>out. getTokenBalancesFromMulticall partialBatchEnvironment ownerAddress [dai, weth] (Num 1) = Inr out \<and>
     length out = 2 \<and>
     token (out ! 0) = Some dai \<and>
     externalBalance (out ! 0) =
       Some \<lparr>ExternalBalance.balance = ''0x0'', ExternalBalance.displayBalance = ''0''\<rparr> \<and>
     token (out ! 1) = Some weth \<and>
     externalBalance (out ! 1) =
       Some \<lparr>ExternalBalance.balance = ''0x5'', ExternalBalance.displayBalance = ''0x5e-18''\<rparr>"
proof -
  let ?results = "[\<lparr>success = False, returnValues = []\<rparr>,
                   \<lparr>success = True,
                    returnValues = [\<lparr>ExternalBalance.balance = ''0x5'',
                                     ExternalBalance.displayBalance = ''0x5e-18''\<rparr>]\<rparr>]"
  have call: "batchCall partialBatchEnvironment (Num 1)
                (balanceCalls partialBatchEnvironment ownerAddress [dai, weth]) = Inr ?results"
    by (simp add: partialBatchEnvironment_def balanceCalls_def createBalance_def weth_def
        exampleShiftedBy_def digit_defs)
  have len: "length ?results = length [dai, weth]"
    by simp
  from getTokenBalancesFromMulticall_positional [OF call len]
  obtain out where out:
    "getTokenBalancesFromMulticall partialBatchEnvironment ownerAddress [dai, weth] (Num 1) = Inr out"
    "length out = length [dai, weth]"
    "\<forall>i < length [dai, weth].
        token (out ! i) = Some ([dai, weth] ! i) \<and>
        externalBalance (out ! i) =
          (if success (?results ! i) then elemAt (returnValues (?results ! i)) 0
           else Some \<lparr>ExternalBalance.balance = ''0x0'',
                      ExternalBalance.displayBalance =
                        shiftedBy partialBatchEnvironment ''0x0'' (decimals ([dai, weth] ! i))\<rparr>)"
    by blast
  from out(3) have "token (out ! 0) = Some dai"
    and "externalBalance (out ! 0) =
       Some \<lparr>ExternalBalance.balance = ''0x0'', ExternalBalance.displayBalance = ''0''\<rparr>"
    and "token (out ! 1) = Some weth"
    and "externalBalance (out ! 1) =
       Some \<lparr>ExternalBalance.balance = ''0x5'', ExternalBalance.displayBalance = ''0x5e-18''\<rparr>"
    by (simp_all add: partialBatchEnvironment_def elemAt_def exampleShiftedBy_def)
  with out(1,2) show ?thesis by simp
qed

subsection \<open>C9: the gas estimate passes the transport's answer on\<close>

text \<open>
  Claim C9: \<^verbatim>\<open>getGasEstimate\<close> rejects with the error of the response, unchanged, when the
  response carries one (a string that is not empty), resolves with the result of the
  response when it carries none, and never resolves with anything but that result.
\<close>

theorem getGasEstimate_propagates:
  "(\<forall>e. error (gasEstimateResponse this rawTx) = Some e \<and> e \<noteq> [] \<longrightarrow>
        getGasEstimate this rawTx = Inl e) \<and>
   (error (gasEstimateResponse this rawTx) = None \<longrightarrow>
        getGasEstimate this rawTx = Inr (result (gasEstimateResponse this rawTx))) \<and>
   (\<forall>v. getGasEstimate this rawTx = Inr v \<longrightarrow>
        v = result (gasEstimateResponse this rawTx) \<and>
        (error (gasEstimateResponse this rawTx) = None \<or>
         error (gasEstimateResponse this rawTx) = Some []))"
  by (auto simp: getGasEstimate_def gasEstimateResponse_def Let_def split: option.splits if_splits)

theorem getGasEstimate_propagates_witness:
  "error (gasEstimateResponse (failingCalculator ''0x3b9aca00'') exampleTransaction) =
     Some ''execution reverted'' \<and>
   getGasEstimate (failingCalculator ''0x3b9aca00'') exampleTransaction = Inl ''execution reverted'' \<and>
   error (gasEstimateResponse (historyCalculator specExampleHistory ''0x3b9aca00'') exampleTransaction) =
     None \<and>
   getGasEstimate (historyCalculator specExampleHistory ''0x3b9aca00'') exampleTransaction =
     Inr ''0x5208''"
proof -
  have e: "error (gasEstimateResponse (failingCalculator ''0x3b9aca00'') exampleTransaction) =
     Some ''execution reverted''"
    by (simp add: gasEstimateResponse_def failingCalculator_def)
  have n: "error (gasEstimateResponse (historyCalculator specExampleHistory ''0x3b9aca00'')
             exampleTransaction) = None"
    and r: "result (gasEstimateResponse (historyCalculator specExampleHistory ''0x3b9aca00'')
             exampleTransaction) = ''0x5208''"
    by (simp_all add: gasEstimateResponse_def historyCalculator_def)
  have nonempty: "''execution reverted'' \<noteq> []"
    by simp
  have "\<forall>e. error (gasEstimateResponse (failingCalculator ''0x3b9aca00'') exampleTransaction) = Some e \<and>
            e \<noteq> [] \<longrightarrow>
          getGasEstimate (failingCalculator ''0x3b9aca00'') exampleTransaction = Inl e"
    using getGasEstimate_propagates [of "failingCalculator ''0x3b9aca00''" exampleTransaction]
    by (rule conjunct1)
  with e nonempty have "getGasEstimate (failingCalculator ''0x3b9aca00'') exampleTransaction =
          Inl ''execution reverted''"
    by blast
  moreover
  have "error (gasEstimateResponse (historyCalculator specExampleHistory ''0x3b9aca00'')
                 exampleTransaction) = None \<longrightarrow>
        getGasEstimate (historyCalculator specExampleHistory ''0x3b9aca00'') exampleTransaction =
          Inr (result (gasEstimateResponse (historyCalculator specExampleHistory ''0x3b9aca00'')
                 exampleTransaction))"
    using getGasEstimate_propagates
         [of "historyCalculator specExampleHistory ''0x3b9aca00''" exampleTransaction]
    by blast
  with n r
  have "getGasEstimate (historyCalculator specExampleHistory ''0x3b9aca00'') exampleTransaction =
          Inr ''0x5208''"
    by simp
  ultimately show ?thesis using e n by blast
qed

subsection \<open>C10: a selected reward of zero gives one gwei\<close>

text \<open>
  Claim C10: when the element selected from the sorted eligible rewards is falsy (zero,
  \<^verbatim>\<open>NaN\<close> or \<^verbatim>\<open>undefined\<close>), the median reward is one gwei, and every estimate returned has
  the priority fee \<^verbatim>\<open>0x3b9aca00\<close>.
\<close>

theorem falsy_median_defaults_to_oneGwei:
  assumes "getFeeHistory this 10 [10] ''latest'' = Inr blocks"
    and "\<not> truthy (selectedReward (eligibleRewardsBlocks blocks))"
  shows "medianReward (eligibleRewardsBlocks blocks) = Num oneGwei \<and>
         (\<forall>fees. getFeePerGas this = Inr fees \<longrightarrow> maxPriorityFeePerGas fees = ''0x3b9aca00'')"
proof (intro conjI allI impI)
  show med: "medianReward (eligibleRewardsBlocks blocks) = Num oneGwei"
    using assms(2) by (rule medianReward_falsy)
  fix fees
  assume res: "getFeePerGas this = Inr fees"
  have gwei: "intToHex (Num oneGwei) = Inr ''0x3b9aca00''"
    by (simp add: intToHex_def MAX_SAFE_INTEGER_def oneGwei_def digit_defs)
  show "maxPriorityFeePerGas fees = ''0x3b9aca00''"
  proof (cases "getFeePerGas_try this")
    case (Inr f)
    with res have "f = fees" by (simp add: getFeePerGas_def)
    with Inr assms(1) med gwei show ?thesis
      by (auto simp: getFeePerGas_try_def Let_def split: sum.splits if_splits)
  next
    case (Inl e)
    with res have "getFeePerGas_catch this = Inr fees" by (simp add: getFeePerGas_def)
    with gwei show ?thesis
      by (auto simp: getFeePerGas_catch_def split: sum.splits)
  qed
qed

theorem falsy_median_defaults_to_oneGwei_witness:
  "getFeeHistory (historyCalculator zeroRewardHistory ''0x3b9aca00'') 10 [10] ''latest'' =
     Inr (feeHistoryBlocks zeroRewardHistory) \<and>
   selectedReward (eligibleRewardsBlocks (feeHistoryBlocks zeroRewardHistory)) = Some (Num 0) \<and>
   medianReward (eligibleRewardsBlocks (feeHistoryBlocks zeroRewardHistory)) = Num oneGwei \<and>
   getFeePerGas (historyCalculator zeroRewardHistory ''0x3b9aca00'') =
     Inr \<lparr>maxBaseFeePerGas = ''0x8c'', maxPriorityFeePerGas = ''0x3b9aca00'',
          maxFeePerGas = ''0x3b9aca8c''\<rparr>"
proof -
  let ?calc = "historyCalculator zeroRewardHistory ''0x3b9aca00''"
  let ?blocks = "feeHistoryBlocks zeroRewardHistory"
  have hist: "getFeeHistory ?calc 10 [10] ''latest'' = Inr ?blocks"
    by (simp add: getFeeHistory_def historyCalculator_def)
  have sel: "selectedReward (eligibleRewardsBlocks ?blocks) = Some (Num 0)"
    by (simp add: selectedReward_def eligibleRewardsBlocks_def eligible_def feeHistoryBlocks_def
        zeroRewardHistory_def elemAt_def parseInt_def digit_defs Let_def)
  then have falsy: "\<not> truthy (selectedReward (eligibleRewardsBlocks ?blocks))"
    by simp
  have res: "getFeePerGas ?calc =
     Inr \<lparr>maxBaseFeePerGas = ''0x8c'', maxPriorityFeePerGas = ''0x3b9aca00'',
          maxFeePerGas = ''0x3b9aca8c''\<rparr>"
    by (simp add: historyCalculator_def zeroRewardHistory_def fee_defs digit_defs calculatedFee_exact)
  from falsy_median_defaults_to_oneGwei [OF hist falsy] hist sel res show ?thesis
    by blast
qed

end
